theory Spec2Isabelle
  imports Complex_Main
begin

section \<open>Data model\<close>

text \<open>
  The scores of \<open>alignment.py\<close>, the voxel fields and the torsion angles are Python
  floats modelled as HOL reals, rounding aside; negative infinity, which
  \<open>spatial_alignment\<close> uses as the start value of its maximum, is a constructor of its
  own. The float64 values of \<open>boltzmann.py\<close> and \<open>adaptive.py\<close>, where the code
  reaches infinities and NaN, have a type with these values and the range of float64. A
  Python \<open>dict\<close> whose iteration order matters is an association list in insertion order
  (keys distinct, looked up with \<open>map_of\<close>); the compatibility matrix, which is only
  looked up, is a map. A raised exception is the left injection of a sum.
\<close>

datatype py_error =
    ValueError string
  | TypeError string
  | ZeroDivisionError
  | KeyError string

datatype pyfloat = NegInf | Fin real

type_synonym pos = "real \<times> real \<times> real"

record Voxel =
  position :: pos
  property_type :: string
  accessibility :: real
  flexibility :: real
  nearby_residue :: "string option"

type_synonym grid = "(pos \<times> Voxel) list"

type_synonym matrix = "(string \<times> string) \<rightharpoonup> real"

subsection \<open>core.py: Voxel\<close>



subsection \<open>alignment.py\<close>

text \<open>\<open>tuple(mol_pos[i] + offset[i] for i in range(3))\<close>\<close>

fun translate :: "pos \<Rightarrow> pos \<Rightarrow> pos" where
  "translate (x, y, z) (dx, dy, dz) = (x + dx, y + dy, z + dz)"

text \<open>
  The loop of \<open>calculate_placement_score\<close> over \<open>molecule_grid.items()\<close>, with the two
  accumulators \<open>score\<close> and \<open>overlap_count\<close>.
\<close>

fun placement_loop ::
  "grid \<Rightarrow> pos \<Rightarrow> matrix \<Rightarrow> grid \<Rightarrow> real \<times> nat \<Rightarrow> real \<times> nat" where
  "placement_loop cavity_grid offset cm [] (score, overlap_count) = (score, overlap_count)"
| "placement_loop cavity_grid offset cm ((mol_pos, mol_voxel) # rest) (score, overlap_count) =
     (let cavity_pos = translate mol_pos offset in
      case map_of cavity_grid cavity_pos of
        None \<Rightarrow> placement_loop cavity_grid offset cm rest (score, overlap_count)
      | Some cavity_voxel \<Rightarrow>
          (let pair = (property_type mol_voxel, property_type cavity_voxel);
               reverse_pair = (property_type cavity_voxel, property_type mol_voxel);
               score' = (case cm pair of
                           Some v \<Rightarrow> score + v
                         | None \<Rightarrow> (case cm reverse_pair of
                                      Some v \<Rightarrow> score + v
                                    | None \<Rightarrow> score))
           in placement_loop cavity_grid offset cm rest (score', overlap_count + 1)))"

definition calculate_placement_score :: "grid \<Rightarrow> grid \<Rightarrow> pos \<Rightarrow> matrix \<Rightarrow> real" where
  "calculate_placement_score cavity_grid molecule_grid offset cm =
     (case placement_loop cavity_grid offset cm molecule_grid (0, 0) of
        (score, overlap_count) \<Rightarrow>
          if overlap_count > 0
          then score / real overlap_count * sqrt (real overlap_count)
          else score)"

text \<open>\<open>score > best_score\<close>, where \<open>best_score\<close> may still be \<open>float('-inf')\<close>.\<close>

fun float_gt :: "real \<Rightarrow> pyfloat \<Rightarrow> bool" where
  "float_gt s NegInf = True"
| "float_gt s (Fin b) = (s > b)"

text \<open>The loop of \<open>spatial_alignment\<close> over \<open>cavity_positions\<close>.\<close>

fun alignment_loop ::
  "grid \<Rightarrow> grid \<Rightarrow> matrix \<Rightarrow> real \<Rightarrow> pos list \<Rightarrow> pyfloat \<times> pos \<Rightarrow> pyfloat \<times> pos" where
  "alignment_loop cavity_grid molecule_grid cm gap_penalty [] (best_score, best_offset) =
     (best_score, best_offset)"
| "alignment_loop cavity_grid molecule_grid cm gap_penalty (cavity_pos # rest) (best_score, best_offset) =
     (let placement_score = calculate_placement_score cavity_grid molecule_grid cavity_pos cm;
          score = placement_score + gap_penalty
      in if float_gt score best_score
         then alignment_loop cavity_grid molecule_grid cm gap_penalty rest (Fin score, cavity_pos)
         else alignment_loop cavity_grid molecule_grid cm gap_penalty rest (best_score, best_offset))"

definition spatial_alignment :: "grid \<Rightarrow> grid \<Rightarrow> matrix \<Rightarrow> real \<Rightarrow> pyfloat \<times> pos" where
  "spatial_alignment cavity_grid molecule_grid cm gap_penalty =
     (let cavity_positions = map fst cavity_grid
      in alignment_loop cavity_grid molecule_grid cm gap_penalty cavity_positions (NegInf, (0, 0, 0)))"

text \<open>
  The same loop as a transition relation on the state (positions still to visit,
  \<open>best_score\<close>, \<open>best_offset\<close>): one transition per iteration, by the branch of the
  \<open>if\<close> that is taken. An invocation starts at the keys of the cavity grid with
  \<open>float('-inf')\<close> and \<open>(0, 0, 0)\<close> and returns the pair it holds when no position is left.
\<close>

inductive alignment_step ::
  "grid \<Rightarrow> grid \<Rightarrow> matrix \<Rightarrow> real \<Rightarrow> pos list \<times> pyfloat \<times> pos \<Rightarrow> pos list \<times> pyfloat \<times> pos \<Rightarrow> bool"
  for cavity_grid molecule_grid cm gap_penalty where
  improve:
    "float_gt (calculate_placement_score cavity_grid molecule_grid cavity_pos cm + gap_penalty) best_score \<Longrightarrow>
     alignment_step cavity_grid molecule_grid cm gap_penalty
       (cavity_pos # rest, best_score, best_offset)
       (rest, Fin (calculate_placement_score cavity_grid molecule_grid cavity_pos cm + gap_penalty), cavity_pos)"
| keep:
    "\<not> float_gt (calculate_placement_score cavity_grid molecule_grid cavity_pos cm + gap_penalty) best_score \<Longrightarrow>
     alignment_step cavity_grid molecule_grid cm gap_penalty
       (cavity_pos # rest, best_score, best_offset)
       (rest, best_score, best_offset)"

inductive alignment_run ::
  "grid \<Rightarrow> grid \<Rightarrow> matrix \<Rightarrow> real \<Rightarrow> pos list \<times> pyfloat \<times> pos \<Rightarrow> pyfloat \<times> pos \<Rightarrow> bool"
  for cavity_grid molecule_grid cm gap_penalty where
  finished:
    "alignment_run cavity_grid molecule_grid cm gap_penalty ([], best_score, best_offset)
       (best_score, best_offset)"
| iterate:
    "alignment_step cavity_grid molecule_grid cm gap_penalty st st' \<Longrightarrow>
     alignment_run cavity_grid molecule_grid cm gap_penalty st' result \<Longrightarrow>
     alignment_run cavity_grid molecule_grid cm gap_penalty st result"

definition invocation :: "grid \<Rightarrow> grid \<Rightarrow> matrix \<Rightarrow> real \<Rightarrow> pyfloat \<times> pos \<Rightarrow> bool" where
  "invocation cavity_grid molecule_grid cm gap_penalty result =
     alignment_run cavity_grid molecule_grid cm gap_penalty
       (map fst cavity_grid, NegInf, (0, 0, 0)) result"

subsection \<open>The placement score in closed form\<close>

text \<open>
  The description of the placement score: the matrix value of a pair of property tags,
  in the given order, else reversed, else 0; the list of overlapping (molecule, cavity)
  voxel pairs at an offset, the molecule position \<open>(x, y, z)\<close> shifted by the offset
  \<open>(dx, dy, dz)\<close> being \<open>(x + dx, y + dy, z + dz)\<close>.
\<close>

definition pair_value :: "matrix \<Rightarrow> string \<Rightarrow> string \<Rightarrow> real" where
  "pair_value cm a b =
     (case cm (a, b) of
        Some v \<Rightarrow> v
      | None \<Rightarrow> (case cm (b, a) of Some v \<Rightarrow> v | None \<Rightarrow> 0))"

definition overlaps :: "grid \<Rightarrow> grid \<Rightarrow> pos \<Rightarrow> (Voxel \<times> Voxel) list" where
  "overlaps cavity_grid molecule_grid offset =
     List.map_filter
       (\<lambda>((x, y, z), mol_voxel).
          case offset of (dx, dy, dz) \<Rightarrow>
            map_option (\<lambda>cavity_voxel. (mol_voxel, cavity_voxel))
              (map_of cavity_grid (x + dx, y + dy, z + dz)))
       molecule_grid"

definition overlap_sum :: "matrix \<Rightarrow> (Voxel \<times> Voxel) list \<Rightarrow> real" where
  "overlap_sum cm os =
     sum_list (map (\<lambda>(mv, cv). pair_value cm (property_type mv) (property_type cv)) os)"

text \<open>An example voxel: hydrophobic, with the default accessibility and flexibility.\<close>

definition hydrophobic_voxel :: Voxel where
  "hydrophobic_voxel =
     \<lparr> position = (0, 0, 0), property_type = ''hydrophobic'', accessibility = 1,
       flexibility = 1 / 2, nearby_residue = None \<rparr>"

subsection \<open>float64 range\<close>

text \<open>
  The weights, the partition sum and the probabilities of \<open>boltzmann.py\<close> are numpy
  float64 values, and the code reaches their infinities and NaN on ordinary finite
  inputs. A float64 result is modelled with its range: a result whose exact value is
  \<open>x\<close> is infinite when \<open>|x|\<close> reaches \<open>2^1024 - 2^970\<close> (the midpoint above the largest
  finite float64) and zero when \<open>|x|\<close> is at most \<open>2^-1075\<close> (half the smallest
  subnormal). The rounding of a value inside the range is not modelled, and zero has no
  sign.
\<close>

datatype np_float = NpFin real | NpPosInf | NpNegInf | NpNaN

definition max_float_bound :: real where
  "max_float_bound = 2 ^ 1024 - 2 ^ 970"

definition min_float_bound :: real where
  "min_float_bound = 1 / 2 ^ 1075"

definition range64 :: "real \<Rightarrow> np_float" where
  "range64 x =
     (if max_float_bound \<le> x then NpPosInf
      else if x \<le> - max_float_bound then NpNegInf
      else if \<bar>x\<bar> \<le> min_float_bound then NpFin 0
      else NpFin x)"

text \<open>A real that a float64 operation returns as it is: zero, or inside the range.\<close>

definition in_range :: "real \<Rightarrow> bool" where
  "in_range x = (x = 0 \<or> (min_float_bound < \<bar>x\<bar> \<and> \<bar>x\<bar> < max_float_bound))"

text \<open>\<open>np.exp\<close>: overflow gives \<open>inf\<close> and underflow 0, with a warning and no exception.\<close>

fun np_exp :: "np_float \<Rightarrow> np_float" where
  "np_exp (NpFin x) = range64 (exp x)"
| "np_exp NpPosInf = NpPosInf"
| "np_exp NpNegInf = NpFin 0"
| "np_exp NpNaN = NpNaN"

text \<open>Addition and division of float64 values; numpy raises no exception for either.\<close>

fun np_add :: "np_float \<Rightarrow> np_float \<Rightarrow> np_float" where
  "np_add NpNaN b = NpNaN"
| "np_add a NpNaN = NpNaN"
| "np_add NpPosInf NpNegInf = NpNaN"
| "np_add NpNegInf NpPosInf = NpNaN"
| "np_add NpPosInf b = NpPosInf"
| "np_add a NpPosInf = NpPosInf"
| "np_add NpNegInf b = NpNegInf"
| "np_add a NpNegInf = NpNegInf"
| "np_add (NpFin a) (NpFin b) = range64 (a + b)"

fun np_div :: "np_float \<Rightarrow> np_float \<Rightarrow> np_float" where
  "np_div NpNaN b = NpNaN"
| "np_div a NpNaN = NpNaN"
| "np_div (NpFin a) (NpFin b) =
     (if b = 0 then (if a = 0 then NpNaN else if 0 < a then NpPosInf else NpNegInf)
      else range64 (a / b))"
| "np_div (NpFin a) b = NpFin 0"
| "np_div NpPosInf (NpFin b) = (if 0 \<le> b then NpPosInf else NpNegInf)"
| "np_div NpNegInf (NpFin b) = (if 0 \<le> b then NpNegInf else NpPosInf)"
| "np_div a b = NpNaN"

fun np_neg :: "np_float \<Rightarrow> np_float" where
  "np_neg (NpFin a) = NpFin (- a)"
| "np_neg NpPosInf = NpNegInf"
| "np_neg NpNegInf = NpPosInf"
| "np_neg NpNaN = NpNaN"

subsection \<open>boltzmann.py\<close>

text \<open>
  The score landscape \<open>all_scores\<close> is the dict returned by the caller's
  \<open>spatial_alignment_all_paths\<close>, here its items in iteration order. A score is a finite
  number, either a Python float (or int) or a numpy float64: \<open>calculate_placement_score\<close>
  returns the one without overlaps and the other with.
\<close>

datatype score_value = PyFloat real | NpFloat64 real

fun score_of :: "score_value \<Rightarrow> real" where
  "score_of (PyFloat s) = s"
| "score_of (NpFloat64 s) = s"

type_synonym landscape = "(pos \<times> score_value) list"

text \<open>
  \<open>energy = -score\<close> and \<open>-energy / kT\<close>, where \<open>kT\<close> is the Python float of the exact
  product given here. Dividing a Python float by zero raises \<open>ZeroDivisionError\<close>;
  dividing a numpy float64 by zero gives \<open>inf\<close>, \<open>-inf\<close> or \<open>nan\<close> (the zero being negative
  when the product is); a quotient that leaves the range is infinite or zero.
\<close>

definition divide_by_kT :: "score_value \<Rightarrow> real \<Rightarrow> py_error + np_float" where
  "divide_by_kT score kT =
     (let energy = - score_of score in
      case range64 kT of
        NpFin k \<Rightarrow>
          if k = 0
          then (case score of
                  PyFloat s \<Rightarrow> Inl ZeroDivisionError
                | NpFloat64 s \<Rightarrow>
                    Inr (if - energy = 0 then NpNaN
                         else if (0 < - energy) = (0 \<le> kT) then NpPosInf else NpNegInf))
          else Inr (range64 (- energy / k))
      | NpNaN \<Rightarrow> Inr NpNaN
      | _ \<Rightarrow> Inr (NpFin 0))"

text \<open>The loop fills \<open>boltzmann_weights\<close> and accumulates \<open>Z\<close>.\<close>

fun weights_loop ::
  "real \<Rightarrow> landscape \<Rightarrow> (pos \<times> np_float) list \<times> np_float \<Rightarrow>
   py_error + ((pos \<times> np_float) list \<times> np_float)" where
  "weights_loop kT [] (boltzmann_weights, Z) = Inr (boltzmann_weights, Z)"
| "weights_loop kT ((posn, score) # rest) (boltzmann_weights, Z) =
     (case divide_by_kT score kT of
        Inl e \<Rightarrow> Inl e
      | Inr ratio \<Rightarrow>
          (let weight = np_exp ratio
           in weights_loop kT rest (boltzmann_weights @ [(posn, weight)], np_add Z weight)))"

text \<open>
  The final comprehension divides by \<open>Z\<close> once per entry of \<open>boltzmann_weights\<close>, so
  with no entry no division is executed.
\<close>

definition boltzmann_ensemble_docking ::
  "(grid \<Rightarrow> grid \<Rightarrow> landscape) \<Rightarrow> grid \<Rightarrow> grid \<Rightarrow> real \<Rightarrow> py_error + (pos \<times> np_float) list" where
  "boltzmann_ensemble_docking spatial_alignment_all_paths cavity_grid molecule_grid temperature =
     (let kT = (19872041 / 10000000000) * temperature;
          all_scores = spatial_alignment_all_paths cavity_grid molecule_grid
      in case weights_loop kT all_scores ([], NpFin 0) of
           Inl e \<Rightarrow> Inl e
         | Inr (boltzmann_weights, Z) \<Rightarrow>
             Inr (map (\<lambda>(pos, w). (pos, np_div w Z)) boltzmann_weights))"

text \<open>
  Example landscape functions: the empty one; two positions of score 1.0; two positions
  of scores 1.0 and 2.0; two positions of scores 1000.0 and 1.0.
\<close>

definition no_paths :: "grid \<Rightarrow> grid \<Rightarrow> landscape" where
  "no_paths cavity_grid molecule_grid = []"

definition two_equal_paths :: "grid \<Rightarrow> grid \<Rightarrow> landscape" where
  "two_equal_paths cavity_grid molecule_grid =
     [((0, 0, 0), PyFloat 1), ((1, 0, 0), PyFloat 1)]"

definition two_unequal_paths :: "grid \<Rightarrow> grid \<Rightarrow> landscape" where
  "two_unequal_paths cavity_grid molecule_grid =
     [((0, 0, 0), PyFloat 1), ((1, 0, 0), NpFloat64 2)]"

definition steep_paths :: "grid \<Rightarrow> grid \<Rightarrow> landscape" where
  "steep_paths cavity_grid molecule_grid =
     [((0, 0, 0), PyFloat 1000), ((1, 0, 0), PyFloat 1)]"

subsection \<open>adaptive.py\<close>

text \<open>
  \<open>np.corrcoef(x, y)[0, 1]\<close> is library code, modelled from its definition: the Pearson
  coefficient of the two sequences, the covariance divided by the two standard
  deviations in turn. With a zero variance a division is 0/0, which numpy returns as
  \<open>nan\<close> with a warning; with fewer than two points every deviation is zero or undefined
  and the result is \<open>nan\<close> as well. Sequences of different lengths raise \<open>ValueError\<close>.
\<close>

definition deviations :: "real list \<Rightarrow> real list" where
  "deviations xs = map (\<lambda>v. v - sum_list xs / real (length xs)) xs"

definition corrcoef :: "real list \<Rightarrow> real list \<Rightarrow> py_error + np_float" where
  "corrcoef xs ys =
     (if length xs \<noteq> length ys
      then Inl (ValueError ''all the input array dimensions must match exactly'')
      else (let cxy = sum_list (map (\<lambda>(a, b). a * b) (zip (deviations xs) (deviations ys)));
                cxx = sum_list (map (\<lambda>a. a * a) (deviations xs));
                cyy = sum_list (map (\<lambda>b. b * b) (deviations ys))
            in if length xs < 2 \<or> cxx = 0 \<or> cyy = 0 then Inr NpNaN
               else Inr (NpFin (cxy / sqrt cxx / sqrt cyy))))"

text \<open>
  The inner function \<open>loss\<close> of \<open>update_weights\<close>: \<open>keys\<close> are the keys of
  \<open>self.weights\<close>, which the assignment in \<open>loss\<close> keeps.
\<close>

definition loss ::
  "'k list \<Rightarrow> grid \<Rightarrow> grid list \<Rightarrow> real list \<Rightarrow> (grid \<Rightarrow> grid \<Rightarrow> ('k \<times> real) list \<Rightarrow> real) \<Rightarrow>
   real list \<Rightarrow> py_error + np_float" where
  "loss keys cavity_grid known_binders known_activities scoring_function w =
     (let weights = zip keys w;
          predicted = map (\<lambda>b. scoring_function cavity_grid b weights) known_binders
      in case corrcoef predicted known_activities of
           Inl e \<Rightarrow> Inl e
         | Inr corr \<Rightarrow> Inr (np_neg corr))"

text \<open>
  \<open>update_weights\<close>. The optimizer \<open>scipy.optimize.minimize\<close> is library code and a
  parameter here: given the loss and the initial vector it returns \<open>result.x\<close> or raises.
  The function returns the new \<open>self.weights\<close>.
\<close>

definition update_weights ::
  "((real list \<Rightarrow> py_error + np_float) \<Rightarrow> real list \<Rightarrow> py_error + real list) \<Rightarrow>
   ('k \<times> real) list \<Rightarrow> grid \<Rightarrow> grid list \<Rightarrow> real list \<Rightarrow>
   (grid \<Rightarrow> grid \<Rightarrow> ('k \<times> real) list \<Rightarrow> real) \<Rightarrow> py_error + ('k \<times> real) list" where
  "update_weights minimize weights cavity_grid known_binders known_activities scoring_function =
     (let keys = map fst weights;
          initial = map snd weights
      in case minimize (loss keys cavity_grid known_binders known_activities scoring_function) initial of
           Inl e \<Rightarrow> Inl e
         | Inr x \<Rightarrow> Inr (zip keys x))"

text \<open>
  Example inputs: a scoring function that gives every binder the score 1, and an
  optimizer that evaluates the loss at the initial vector and returns that vector.
\<close>

definition constant_score :: "grid \<Rightarrow> grid \<Rightarrow> (string \<times> real) list \<Rightarrow> real" where
  "constant_score cavity_grid binder weights = 1"

definition evaluate_once ::
  "(real list \<Rightarrow> py_error + np_float) \<Rightarrow> real list \<Rightarrow> py_error + real list" where
  "evaluate_once f x0 = (case f x0 of Inl e \<Rightarrow> Inl e | Inr v \<Rightarrow> Inr x0)"

subsection \<open>pareto.py\<close>

text \<open>
  The objectives and the scores of one position are dicts keyed by objective name, as
  association lists. \<open>other_scores[k]\<close> raises \<open>KeyError\<close> on a missing key.
\<close>

type_synonym scores = "(string \<times> real) list"

type_synonym objective = "grid \<Rightarrow> grid \<Rightarrow> pos \<Rightarrow> real"

text \<open>\<open>all(other_scores[k] >= scores[k] for k in scores)\<close>, stopping at the first failure.\<close>

fun all_ge :: "scores \<Rightarrow> scores \<Rightarrow> py_error + bool" where
  "all_ge other_scores [] = Inr True"
| "all_ge other_scores ((k, v) # rest) =
     (case map_of other_scores k of
        None \<Rightarrow> Inl (KeyError k)
      | Some ov \<Rightarrow> if ov \<ge> v then all_ge other_scores rest else Inr False)"

text \<open>\<open>any(other_scores[k] > scores[k] for k in scores)\<close>, stopping at the first success.\<close>

fun any_gt :: "scores \<Rightarrow> scores \<Rightarrow> py_error + bool" where
  "any_gt other_scores [] = Inr False"
| "any_gt other_scores ((k, v) # rest) =
     (case map_of other_scores k of
        None \<Rightarrow> Inl (KeyError k)
      | Some ov \<Rightarrow> if ov > v then Inr True else any_gt other_scores rest)"

text \<open>The condition of the inner \<open>if\<close>: \<open>all(...) and any(...)\<close>.\<close>

definition dominates :: "scores \<Rightarrow> scores \<Rightarrow> py_error + bool" where
  "dominates other_scores scores =
     (case all_ge other_scores scores of
        Inl e \<Rightarrow> Inl e
      | Inr False \<Rightarrow> Inr False
      | Inr True \<Rightarrow> any_gt other_scores scores)"

text \<open>The inner loop over \<open>all_solutions[:-1]\<close>, with its \<open>break\<close>.\<close>

fun is_dominated_loop :: "(pos \<times> scores) list \<Rightarrow> scores \<Rightarrow> py_error + bool" where
  "is_dominated_loop [] scores = Inr False"
| "is_dominated_loop ((p, other_scores) # rest) scores =
     (case dominates other_scores scores of
        Inl e \<Rightarrow> Inl e
      | Inr True \<Rightarrow> Inr True
      | Inr False \<Rightarrow> is_dominated_loop rest scores)"

text \<open>The outer loop over the positions of the cavity grid.\<close>

fun pareto_loop ::
  "grid \<Rightarrow> grid \<Rightarrow> (string \<times> objective) list \<Rightarrow> pos list \<Rightarrow>
   (pos \<times> scores) list \<times> (pos \<times> scores) list \<Rightarrow> py_error + (pos \<times> scores) list" where
  "pareto_loop cavity_grid molecule_grid objectives [] (pareto_frontier, all_solutions) =
     Inr pareto_frontier"
| "pareto_loop cavity_grid molecule_grid objectives (posn # rest) (pareto_frontier, all_solutions) =
     (let scores = map (\<lambda>(name, func). (name, func cavity_grid molecule_grid posn)) objectives;
          all_solutions' = all_solutions @ [(posn, scores)]
      in case is_dominated_loop (butlast all_solutions') scores of
           Inl e \<Rightarrow> Inl e
         | Inr is_dominated \<Rightarrow>
             pareto_loop cavity_grid molecule_grid objectives rest
               (if \<not> is_dominated then pareto_frontier @ [(posn, scores)] else pareto_frontier,
                all_solutions'))"

definition pareto_optimal_docking ::
  "grid \<Rightarrow> grid \<Rightarrow> (string \<times> objective) list \<Rightarrow> py_error + (pos \<times> scores) list" where
  "pareto_optimal_docking cavity_grid molecule_grid objectives =
     pareto_loop cavity_grid molecule_grid objectives (map fst cavity_grid) ([], [])"

text \<open>
  An example input: a cavity of two cells on the x axis, and one objective that scores a
  position by its x coordinate.
\<close>

definition two_cells :: grid where
  "two_cells =
     [((0, 0, 0), hydrophobic_voxel \<lparr> position := (0, 0, 0) \<rparr>),
      ((1, 0, 0), hydrophobic_voxel \<lparr> position := (1, 0, 0) \<rparr>)]"

definition x_coordinate :: objective where
  "x_coordinate cavity_grid molecule_grid p = fst p"

subsection \<open>conformers.py\<close>

text \<open>
  \<open>itertools.product(xs, repeat=n)\<close>: the tuples in lexicographic order, the last
  component advancing fastest.
\<close>

fun product_repeat :: "'a list \<Rightarrow> nat \<Rightarrow> 'a list list" where
  "product_repeat xs 0 = [[]]"
| "product_repeat xs (Suc n) = concat (map (\<lambda>x. map ((#) x) (product_repeat xs n)) xs)"

text \<open>
  \<open>[i * (360 / torsion_steps) for i in range(torsion_steps)]\<close>: the division is
  evaluated once per element, so never with \<open>torsion_steps = 0\<close>.
\<close>

definition torsion_angles :: "int \<Rightarrow> real list" where
  "torsion_angles torsion_steps =
     map (\<lambda>i. real_of_int i * (360 / real_of_int torsion_steps)) [0..torsion_steps - 1]"

text \<open>\<open>itertools.product\<close> raises \<open>ValueError\<close> on a negative \<open>repeat\<close>.\<close>

definition generate_torsion_states :: "int \<Rightarrow> int \<Rightarrow> py_error + real list list" where
  "generate_torsion_states n_bonds torsion_steps =
     (let angles = torsion_angles torsion_steps
      in if n_bonds < 0 then Inl (ValueError ''repeat argument cannot be negative'')
         else Inr (product_repeat angles (nat n_bonds)))"

subsection \<open>scoring.py\<close>

definition default_compatibility_matrix :: matrix where
  "default_compatibility_matrix =
     map_of
       [((''hydrophobic'', ''hydrophobic''), 2),
        ((''hydrophobic'', ''hydrophilic''), -3),
        ((''hydrophobic'', ''polar''), -1),
        ((''hydrophobic'', ''empty''), -1 / 2),
        ((''hydrophilic'', ''hydrophilic''), 3 / 2),
        ((''hydrophilic'', ''polar''), 1),
        ((''hydrophilic'', ''charged_pos''), 1 / 2),
        ((''hydrophilic'', ''charged_neg''), 1 / 2),
        ((''polar'', ''polar''), 3 / 2),
        ((''polar'', ''charged_pos''), 1),
        ((''polar'', ''charged_neg''), 1),
        ((''charged_pos'', ''charged_neg''), 3),
        ((''charged_pos'', ''charged_pos''), -4),
        ((''charged_neg'', ''charged_neg''), -4),
        ((''empty'', ''empty''), 0)]"

subsection \<open>core.py: SpatialDocking.align\<close>

text \<open>
  A call of \<open>spatial_alignment\<close> by keyword. Its signature is
  \<open>(cavity_grid, molecule_grid, compatibility_matrix, gap_penalty=-1.0)\<close>, with no
  \<open>**kwargs\<close>: a keyword that is not one of these names raises \<open>TypeError\<close> before the
  body runs, and so does a missing required argument. The argument values carry a tag
  for their Python type; \<open>align\<close> passes grids, a matrix and an integer only, and a
  value of a type the body cannot use, which no caller in the repository passes, is
  given as a \<open>TypeError\<close> too.
\<close>

datatype py_value = GridVal grid | MatrixVal matrix | FloatVal real | IntVal int

definition spatial_alignment_params :: "string list" where
  "spatial_alignment_params =
     [''cavity_grid'', ''molecule_grid'', ''compatibility_matrix'', ''gap_penalty'']"

definition call_spatial_alignment :: "(string \<times> py_value) list \<Rightarrow> py_error + (pyfloat \<times> pos)" where
  "call_spatial_alignment kwargs =
     (case find (\<lambda>k. k \<notin> set spatial_alignment_params) (map fst kwargs) of
        Some k \<Rightarrow>
          Inl (TypeError (''spatial_alignment() got an unexpected keyword argument '' @ k))
      | None \<Rightarrow>
          (case (map_of kwargs ''cavity_grid'', map_of kwargs ''molecule_grid'',
                 map_of kwargs ''compatibility_matrix'') of
             (Some (GridVal c), Some (GridVal m), Some (MatrixVal cm)) \<Rightarrow>
               (case map_of kwargs ''gap_penalty'' of
                  None \<Rightarrow> Inr (spatial_alignment c m cm (- 1))
                | Some (FloatVal g) \<Rightarrow> Inr (spatial_alignment c m cm g)
                | Some _ \<Rightarrow> Inl (TypeError ''gap_penalty is not a float''))
           | _ \<Rightarrow> Inl (TypeError ''spatial_alignment() missing required arguments'')))"

record SpatialDocking =
  grid_spacing :: real
  max_translation :: int
  gap_penalty :: real
  verbose :: bool

record Metadata =
  meta_grid_spacing :: real
  meta_max_translation :: int
  meta_gap_penalty :: real
  cavity_voxels :: nat
  molecule_voxels :: nat

record DockingResult =
  score :: pyfloat
  translation :: pos
  rotation :: "(real \<times> real \<times> real \<times> real) option"
  cavity_grid :: "grid option"
  molecule_grid :: "grid option"
  compatibility_matrix :: "matrix option"
  metadata :: "Metadata option"

text \<open>The keyword arguments that \<open>align\<close> passes to \<open>spatial_alignment\<close>.\<close>

definition align_kwargs :: "SpatialDocking \<Rightarrow> grid \<Rightarrow> grid \<Rightarrow> matrix \<Rightarrow> (string \<times> py_value) list" where
  "align_kwargs self cav mol cm =
     [(''cavity_grid'', GridVal cav),
      (''molecule_grid'', GridVal mol),
      (''compatibility_matrix'', MatrixVal cm),
      (''max_translation'', IntVal (max_translation self))]"

definition align :: "SpatialDocking \<Rightarrow> grid \<Rightarrow> grid \<Rightarrow> matrix option \<Rightarrow> py_error + DockingResult" where
  "align self cav mol cm_opt =
     (let cm = (case cm_opt of None \<Rightarrow> default_compatibility_matrix | Some m \<Rightarrow> m)
      in case call_spatial_alignment (align_kwargs self cav mol cm) of
           Inl e \<Rightarrow> Inl e
         | Inr (s, t) \<Rightarrow>
             Inr \<lparr> score = s, translation = t, rotation = None,
                   cavity_grid = Some cav, molecule_grid = Some mol,
                   compatibility_matrix = Some cm,
                   metadata = Some \<lparr> meta_grid_spacing = grid_spacing self,
                                     meta_max_translation = max_translation self,
                                     meta_gap_penalty = gap_penalty self,
                                     cavity_voxels = length cav,
                                     molecule_voxels = length mol \<rparr> \<rparr>)"

text \<open>An example configuration: the defaults of \<open>SpatialDocking.__init__\<close>.\<close>

definition default_docking :: SpatialDocking where
  "default_docking =
     \<lparr> grid_spacing = 1 / 2, max_translation = 10, gap_penalty = - 1, verbose = False \<rparr>"

section \<open>Properties\<close>

subsection \<open>Voxel validation\<close>



subsection \<open>Translation search\<close>

lemma alignment_loop_Fin:
  "\<exists>b' bo'. alignment_loop c m cm g ps (Fin b, bo) = (Fin b', bo') \<and>
     (\<forall>p\<in>set ps. calculate_placement_score c m p cm + g \<le> b') \<and>
     ((b' = b \<and> bo' = bo) \<or>
      (\<exists>i<length ps. bo' = ps ! i \<and> b' = calculate_placement_score c m (ps ! i) cm + g \<and> b < b' \<and>
          (\<forall>j<i. calculate_placement_score c m (ps ! j) cm + g < b')))"
proof (induction ps arbitrary: b bo)
  case Nil
  show ?case by simp
next
  case (Cons p ps)
  let ?cand = "\<lambda>q. calculate_placement_score c m q cm + g"
  show ?case
  proof (cases "?cand p > b")
    case True
    from Cons.IH [of "?cand p" p] obtain b' bo' where
      run: "alignment_loop c m cm g ps (Fin (?cand p), p) = (Fin b', bo')" and
      ub: "\<forall>q\<in>set ps. ?cand q \<le> b'" and
      sel: "(b' = ?cand p \<and> bo' = p) \<or>
        (\<exists>i<length ps. bo' = ps ! i \<and> b' = ?cand (ps ! i) \<and> ?cand p < b' \<and> (\<forall>j<i. ?cand (ps ! j) < b'))"
      by blast
    have run': "alignment_loop c m cm g (p # ps) (Fin b, bo) = (Fin b', bo')"
      using True run by (simp add: Let_def)
    from sel have ge: "?cand p \<le> b'" by auto
    have ub': "\<forall>q\<in>set (p # ps). ?cand q \<le> b'" using ub ge by simp
    from sel have "\<exists>i<length (p # ps). bo' = (p # ps) ! i \<and> b' = ?cand ((p # ps) ! i) \<and> b < b' \<and>
          (\<forall>j<i. ?cand ((p # ps) ! j) < b')"
    proof
      assume "b' = ?cand p \<and> bo' = p"
      then have "0 < length (p # ps) \<and> bo' = (p # ps) ! 0 \<and> b' = ?cand ((p # ps) ! 0) \<and> b < b' \<and>
          (\<forall>j<0. ?cand ((p # ps) ! j) < b')"
        using True by simp
      then show ?thesis by blast
    next
      assume "\<exists>i<length ps. bo' = ps ! i \<and> b' = ?cand (ps ! i) \<and> ?cand p < b' \<and> (\<forall>j<i. ?cand (ps ! j) < b')"
      then obtain i where i: "i < length ps" "bo' = ps ! i" "b' = ?cand (ps ! i)" "?cand p < b'"
        "\<forall>j<i. ?cand (ps ! j) < b'" by blast
      have "\<forall>j<Suc i. ?cand ((p # ps) ! j) < b'"
      proof (intro allI impI)
        fix j assume "j < Suc i"
        then show "?cand ((p # ps) ! j) < b'"
          using i(4,5) by (cases j) auto
      qed
      then have "Suc i < length (p # ps) \<and> bo' = (p # ps) ! Suc i \<and> b' = ?cand ((p # ps) ! Suc i) \<and> b < b' \<and>
          (\<forall>j<Suc i. ?cand ((p # ps) ! j) < b')"
        using i True by simp
      then show ?thesis by blast
    qed
    with run' ub' show ?thesis by blast
  next
    case False
    from Cons.IH [of b bo] obtain b' bo' where
      run: "alignment_loop c m cm g ps (Fin b, bo) = (Fin b', bo')" and
      ub: "\<forall>q\<in>set ps. ?cand q \<le> b'" and
      sel: "(b' = b \<and> bo' = bo) \<or>
        (\<exists>i<length ps. bo' = ps ! i \<and> b' = ?cand (ps ! i) \<and> b < b' \<and> (\<forall>j<i. ?cand (ps ! j) < b'))"
      by blast
    have run': "alignment_loop c m cm g (p # ps) (Fin b, bo) = (Fin b', bo')"
      using False run by (simp add: Let_def)
    from sel have ge: "b \<le> b'" by auto
    have ub': "\<forall>q\<in>set (p # ps). ?cand q \<le> b'" using ub ge False by auto
    from sel have "(b' = b \<and> bo' = bo) \<or> (\<exists>i<length (p # ps). bo' = (p # ps) ! i \<and> b' = ?cand ((p # ps) ! i) \<and> b < b' \<and>
          (\<forall>j<i. ?cand ((p # ps) ! j) < b'))"
    proof
      assume "b' = b \<and> bo' = bo"
      then show ?thesis by simp
    next
      assume "\<exists>i<length ps. bo' = ps ! i \<and> b' = ?cand (ps ! i) \<and> b < b' \<and> (\<forall>j<i. ?cand (ps ! j) < b')"
      then obtain i where i: "i < length ps" "bo' = ps ! i" "b' = ?cand (ps ! i)" "b < b'"
        "\<forall>j<i. ?cand (ps ! j) < b'" by blast
      have "\<forall>j<Suc i. ?cand ((p # ps) ! j) < b'"
      proof (intro allI impI)
        fix j assume "j < Suc i"
        then show "?cand ((p # ps) ! j) < b'"
          using i(4,5) False by (cases j) auto
      qed
      then have "Suc i < length (p # ps) \<and> bo' = (p # ps) ! Suc i \<and> b' = ?cand ((p # ps) ! Suc i) \<and> b < b' \<and>
          (\<forall>j<Suc i. ?cand ((p # ps) ! j) < b')"
        using i by simp
      then show ?thesis by blast
    qed
    with run' ub' show ?thesis by blast
  qed
qed

lemma alignment_loop_NegInf:
  assumes "ps \<noteq> []"
  shows "\<exists>i<length ps.
     alignment_loop c m cm g ps (NegInf, bo) =
        (Fin (calculate_placement_score c m (ps ! i) cm + g), ps ! i) \<and>
     (\<forall>j<length ps. calculate_placement_score c m (ps ! j) cm + g
                     \<le> calculate_placement_score c m (ps ! i) cm + g) \<and>
     (\<forall>j<i. calculate_placement_score c m (ps ! j) cm + g
             < calculate_placement_score c m (ps ! i) cm + g)"
proof -
  let ?cand = "\<lambda>q. calculate_placement_score c m q cm + g"
  from assms obtain p qs where ps: "ps = p # qs" by (cases ps) auto
  from alignment_loop_Fin [of c m cm g qs "?cand p" p] obtain b' bo' where
      run: "alignment_loop c m cm g qs (Fin (?cand p), p) = (Fin b', bo')" and
      ub: "\<forall>q\<in>set qs. ?cand q \<le> b'" and
      sel: "(b' = ?cand p \<and> bo' = p) \<or>
        (\<exists>i<length qs. bo' = qs ! i \<and> b' = ?cand (qs ! i) \<and> ?cand p < b' \<and> (\<forall>j<i. ?cand (qs ! j) < b'))"
    by blast
  have run': "alignment_loop c m cm g ps (NegInf, bo) = (Fin b', bo')"
    using run by (simp add: ps Let_def)
  from sel have ge: "?cand p \<le> b'" by auto
  have ub': "\<forall>j<length ps. ?cand (ps ! j) \<le> b'"
    using ub ge by (auto simp: ps nth_Cons split: nat.splits)
  from sel show ?thesis
  proof
    assume a: "b' = ?cand p \<and> bo' = p"
    have "0 < length ps \<and> alignment_loop c m cm g ps (NegInf, bo) = (Fin (?cand (ps ! 0)), ps ! 0) \<and>
       (\<forall>j<length ps. ?cand (ps ! j) \<le> ?cand (ps ! 0)) \<and> (\<forall>j<0. ?cand (ps ! j) < ?cand (ps ! 0))"
      using a run' ub' by (simp add: ps)
    then show ?thesis by blast
  next
    assume "\<exists>i<length qs. bo' = qs ! i \<and> b' = ?cand (qs ! i) \<and> ?cand p < b' \<and> (\<forall>j<i. ?cand (qs ! j) < b')"
    then obtain i where i: "i < length qs" "bo' = qs ! i" "b' = ?cand (qs ! i)" "?cand p < b'"
        "\<forall>j<i. ?cand (qs ! j) < b'" by blast
    have lt: "\<forall>j<Suc i. ?cand (ps ! j) < ?cand (ps ! Suc i)"
    proof (intro allI impI)
      fix j assume "j < Suc i"
      then show "?cand (ps ! j) < ?cand (ps ! Suc i)"
        using i(3,4,5) by (cases j) (auto simp: ps)
    qed
    have "Suc i < length ps \<and> alignment_loop c m cm g ps (NegInf, bo) = (Fin (?cand (ps ! Suc i)), ps ! Suc i) \<and>
       (\<forall>j<length ps. ?cand (ps ! j) \<le> ?cand (ps ! Suc i))"
      using i run' ub' by (simp add: ps)
    with lt show ?thesis by blast
  qed
qed

lemma calculate_placement_score_empty_molecule:
  "calculate_placement_score cav [] off cm = 0"
  by (simp add: calculate_placement_score_def)

text \<open>
  Claim C2. The candidate offsets of \<open>spatial_alignment\<close> are the keys of the cavity grid
  in iteration order; each has the value \<open>calculate_placement_score + gap_penalty\<close>; the
  result is the maximum value with the first key attaining it. With an empty cavity grid
  the result is negative infinity with offset \<open>(0, 0, 0)\<close>.
\<close>

theorem spatial_alignment_first_maximum:
  "(cav = [] \<longrightarrow> spatial_alignment cav mol cm g = (NegInf, (0, 0, 0)))
   \<and> (cav \<noteq> [] \<longrightarrow>
       (\<exists>i<length cav.
          spatial_alignment cav mol cm g =
            (Fin (calculate_placement_score cav mol (fst (cav ! i)) cm + g), fst (cav ! i)) \<and>
          (\<forall>j<length cav. calculate_placement_score cav mol (fst (cav ! j)) cm + g
                          \<le> calculate_placement_score cav mol (fst (cav ! i)) cm + g) \<and>
          (\<forall>j<i. calculate_placement_score cav mol (fst (cav ! j)) cm + g
                  < calculate_placement_score cav mol (fst (cav ! i)) cm + g)))"
proof (intro conjI impI)
  assume "cav = []"
  then show "spatial_alignment cav mol cm g = (NegInf, (0, 0, 0))"
    by (simp add: spatial_alignment_def)
next
  assume ne: "cav \<noteq> []"
  then have "map fst cav \<noteq> []" by simp
  from alignment_loop_NegInf [OF this, of cav mol cm g "(0, 0, 0)"]
  obtain i where i: "i < length (map fst cav)"
    "alignment_loop cav mol cm g (map fst cav) (NegInf, (0, 0, 0)) =
        (Fin (calculate_placement_score cav mol (map fst cav ! i) cm + g), map fst cav ! i)"
    "\<forall>j<length (map fst cav). calculate_placement_score cav mol (map fst cav ! j) cm + g
                     \<le> calculate_placement_score cav mol (map fst cav ! i) cm + g"
    "\<forall>j<i. calculate_placement_score cav mol (map fst cav ! j) cm + g
             < calculate_placement_score cav mol (map fst cav ! i) cm + g"
    by blast
  have "i < length cav" using i(1) by simp
  moreover have "spatial_alignment cav mol cm g =
            (Fin (calculate_placement_score cav mol (fst (cav ! i)) cm + g), fst (cav ! i))"
    using i(1,2) by (simp add: spatial_alignment_def)
  moreover have "\<forall>j<length cav. calculate_placement_score cav mol (fst (cav ! j)) cm + g
                          \<le> calculate_placement_score cav mol (fst (cav ! i)) cm + g"
    using i(1,3) by simp
  moreover have "\<forall>j<i. calculate_placement_score cav mol (fst (cav ! j)) cm + g
                  < calculate_placement_score cav mol (fst (cav ! i)) cm + g"
    using i(1,4) by simp
  ultimately show "\<exists>i<length cav.
          spatial_alignment cav mol cm g =
            (Fin (calculate_placement_score cav mol (fst (cav ! i)) cm + g), fst (cav ! i)) \<and>
          (\<forall>j<length cav. calculate_placement_score cav mol (fst (cav ! j)) cm + g
                          \<le> calculate_placement_score cav mol (fst (cav ! i)) cm + g) \<and>
          (\<forall>j<i. calculate_placement_score cav mol (fst (cav ! j)) cm + g
                  < calculate_placement_score cav mol (fst (cav ! i)) cm + g)"
    by blast
qed

theorem spatial_alignment_first_maximum_witness:
  "spatial_alignment [] [] Map.empty (- 1) = (NegInf, (0, 0, 0))
   \<and> spatial_alignment two_cells [] default_compatibility_matrix (- 1) = (Fin (- 1), (0, 0, 0))"
proof
  show "spatial_alignment [] [] Map.empty (- 1) = (NegInf, (0, 0, 0))"
    using spatial_alignment_first_maximum [of "[]" "[]" Map.empty "- 1"] by simp
next
  have ne: "two_cells \<noteq> []" by (simp add: two_cells_def)
  from spatial_alignment_first_maximum [of two_cells "[]" default_compatibility_matrix "- 1"] ne
  obtain i where i: "i < length two_cells"
    "spatial_alignment two_cells [] default_compatibility_matrix (- 1) =
       (Fin (calculate_placement_score two_cells [] (fst (two_cells ! i)) default_compatibility_matrix + (- 1)),
        fst (two_cells ! i))"
    "\<forall>j<i. calculate_placement_score two_cells [] (fst (two_cells ! j)) default_compatibility_matrix + (- 1)
           < calculate_placement_score two_cells [] (fst (two_cells ! i)) default_compatibility_matrix + (- 1)"
    by blast
  have "i = 0"
    using i(3) by (cases i) (auto simp: calculate_placement_score_empty_molecule)
  then show "spatial_alignment two_cells [] default_compatibility_matrix (- 1) = (Fin (- 1), (0, 0, 0))"
    using i(2) by (simp add: calculate_placement_score_empty_molecule two_cells_def)
qed

subsection \<open>Conformer enumeration\<close>

lemma length_product_repeat: "length (product_repeat xs n) = length xs ^ n"
proof (induction n)
  case 0
  show ?case by simp
next
  case (Suc n)
  have "length (concat (map (\<lambda>x. map ((#) x) (product_repeat xs n)) xs))
      = sum_list (map (\<lambda>x. length (product_repeat xs n)) xs)"
    by (simp add: length_concat comp_def)
  also have "\<dots> = length xs * length (product_repeat xs n)"
    by (simp add: sum_list_triv)
  finally show ?case using Suc.IH by simp
qed

lemma set_product_repeat:
  "set (product_repeat xs n) = {t. length t = n \<and> set t \<subseteq> set xs}"
proof (induction n)
  case 0
  show ?case by auto
next
  case (Suc n)
  show ?case
  proof (intro set_eqI iffI)
    fix t assume "t \<in> set (product_repeat xs (Suc n))"
    then show "t \<in> {t. length t = Suc n \<and> set t \<subseteq> set xs}"
      using Suc.IH by auto
  next
    fix t assume "t \<in> {t. length t = Suc n \<and> set t \<subseteq> set xs}"
    then obtain x r where t: "t = x # r" "length r = n" "x \<in> set xs" "set r \<subseteq> set xs"
      by (cases t) auto
    then have "r \<in> set (product_repeat xs n)" using Suc.IH by simp
    then show "t \<in> set (product_repeat xs (Suc n))" using t by auto
  qed
qed

lemma distinct_concat_Cons:
  "distinct xs \<Longrightarrow> distinct ys \<Longrightarrow> distinct (concat (map (\<lambda>x. map ((#) x) ys) xs))"
  by (induction xs) (auto simp: distinct_map)

lemma distinct_product_repeat: "distinct xs \<Longrightarrow> distinct (product_repeat xs n)"
  by (induction n) (simp_all add: distinct_concat_Cons)

lemma length_torsion_angles: "length (torsion_angles s) = nat s"
  by (simp add: torsion_angles_def)

lemma distinct_torsion_angles: "1 \<le> s \<Longrightarrow> distinct (torsion_angles s)"
  by (simp add: torsion_angles_def distinct_map inj_on_def)

lemma set_torsion_angles:
  "set (torsion_angles s) = {real_of_int i * 360 / real_of_int s | i. 0 \<le> i \<and> i < s}"
  by (auto simp: torsion_angles_def)

lemma upto_0_3: "[0..3::int] = [0, 1, 2, 3]"
  by (simp add: upto_rec1)

lemma torsion_angles_4: "torsion_angles 4 = [0, 90, 180, 270]"
  by (simp add: torsion_angles_def upto_0_3)

text \<open>
  Claim C7. For \<open>n_bonds \<ge> 0\<close> and \<open>torsion_steps \<ge> 1\<close>, \<open>generate_torsion_states\<close>
  returns \<open>torsion_steps ** n_bonds\<close> tuples, which are exactly the tuples of length
  \<open>n_bonds\<close> over the angles \<open>i * 360 / torsion_steps\<close> for \<open>0 \<le> i < torsion_steps\<close>,
  each once; for \<open>n_bonds = 2\<close> and \<open>torsion_steps = 4\<close> these are the 16 pairs over
  0, 90, 180, 270.
\<close>

theorem generate_torsion_states_product:
  "(0 \<le> n_bonds \<longrightarrow> 1 \<le> torsion_steps \<longrightarrow>
      (\<exists>states. generate_torsion_states n_bonds torsion_steps = Inr states \<and>
          int (length states) = torsion_steps ^ nat n_bonds \<and>
          distinct states \<and>
          set states =
            {t. int (length t) = n_bonds \<and>
                set t \<subseteq> {real_of_int i * 360 / real_of_int torsion_steps | i.
                             0 \<le> i \<and> i < torsion_steps}}))
   \<and> generate_torsion_states 2 4 =
        Inr [[0, 0], [0, 90], [0, 180], [0, 270],
             [90, 0], [90, 90], [90, 180], [90, 270],
             [180, 0], [180, 90], [180, 180], [180, 270],
             [270, 0], [270, 90], [270, 180], [270, 270]]"
proof (intro conjI impI)
  assume n: "0 \<le> n_bonds" and s: "1 \<le> torsion_steps"
  let ?states = "product_repeat (torsion_angles torsion_steps) (nat n_bonds)"
  have run: "generate_torsion_states n_bonds torsion_steps = Inr ?states"
    using n by (simp add: generate_torsion_states_def)
  have "length ?states = nat torsion_steps ^ nat n_bonds"
    by (simp add: length_product_repeat length_torsion_angles)
  then have len: "int (length ?states) = torsion_steps ^ nat n_bonds"
    using s by simp
  have dist: "distinct ?states"
    by (rule distinct_product_repeat [OF distinct_torsion_angles [OF s]])
  have "set ?states =
      {t. length t = nat n_bonds \<and>
          set t \<subseteq> {real_of_int i * 360 / real_of_int torsion_steps | i. 0 \<le> i \<and> i < torsion_steps}}"
    by (simp only: set_product_repeat set_torsion_angles)
  also have "\<dots> =
      {t. int (length t) = n_bonds \<and>
          set t \<subseteq> {real_of_int i * 360 / real_of_int torsion_steps | i. 0 \<le> i \<and> i < torsion_steps}}"
    using n by auto
  finally have mem: "set ?states =
      {t. int (length t) = n_bonds \<and>
          set t \<subseteq> {real_of_int i * 360 / real_of_int torsion_steps | i. 0 \<le> i \<and> i < torsion_steps}}" .
  from run len dist mem
  show "\<exists>states. generate_torsion_states n_bonds torsion_steps = Inr states \<and>
          int (length states) = torsion_steps ^ nat n_bonds \<and>
          distinct states \<and>
          set states =
            {t. int (length t) = n_bonds \<and>
                set t \<subseteq> {real_of_int i * 360 / real_of_int torsion_steps | i.
                             0 \<le> i \<and> i < torsion_steps}}"
    by blast
next
  show "generate_torsion_states 2 4 =
        Inr [[0, 0], [0, 90], [0, 180], [0, 270],
             [90, 0], [90, 90], [90, 180], [90, 270],
             [180, 0], [180, 90], [180, 180], [180, 270],
             [270, 0], [270, 90], [270, 180], [270, 270]]"
    by (simp add: generate_torsion_states_def torsion_angles_4 numeral_2_eq_2)
qed

theorem generate_torsion_states_product_witness:
  "(0::int) \<le> 1 \<and> (1::int) \<le> 3 \<and>
   (\<exists>states. generate_torsion_states 1 3 = Inr states \<and> length states = 3 \<and> distinct states)"
proof -
  have n: "(0::int) \<le> 1" and s: "(1::int) \<le> 3" by simp_all
  from generate_torsion_states_product [of 1 3] n s
  obtain states where st: "generate_torsion_states 1 3 = Inr states"
    "int (length states) = 3 ^ nat 1" "distinct states"
    by blast
  from st(2) have "length states = 3" by simp
  with st(1,3) n s show ?thesis by blast
qed

subsection \<open>Pareto frontier and the public entry point\<close>

text \<open>
  Claim C3. No solution of the returned Pareto frontier is dominated by another evaluated
  solution. The code compares a solution only with the solutions evaluated before it, so
  a solution that a later one dominates stays in the frontier: on the cavity of the two
  cells \<open>(0,0,0)\<close> and \<open>(1,0,0)\<close> with the single objective "x coordinate" both cells are
  returned, although the second dominates the first.
\<close>

theorem pareto_frontier_keeps_dominated:
  "pareto_optimal_docking two_cells [] [(''x'', x_coordinate)] =
     Inr [((0, 0, 0), [(''x'', 0)]), ((1, 0, 0), [(''x'', 1)])]
   \<and> dominates [(''x'', 1)] [(''x'', 0)] = Inr True"
  by (simp add: pareto_optimal_docking_def two_cells_def x_coordinate_def dominates_def)

lemma call_spatial_alignment_align_kwargs:
  "call_spatial_alignment (align_kwargs self cav mol cm) =
     Inl (TypeError ''spatial_alignment() got an unexpected keyword argument max_translation'')"
  by (simp add: call_spatial_alignment_def align_kwargs_def spatial_alignment_params_def)

text \<open>
  Claim C10. For every cavity grid, molecule grid and compatibility matrix (given or
  defaulted), \<open>SpatialDocking.align\<close> raises \<open>TypeError\<close> and produces no result: it
  calls \<open>spatial_alignment\<close> with the keyword \<open>max_translation\<close>, which the signature does
  not accept. The keyword arguments of that call do not include \<open>gap_penalty\<close>, so
  the configured gap penalty has no effect on the outcome.
\<close>

theorem align_raises_TypeError:
  "(\<exists>msg. align self cav mol cm_opt = Inl (TypeError msg))
   \<and> ''max_translation'' \<notin> set spatial_alignment_params
   \<and> ''max_translation'' \<in> fst ` set (align_kwargs self cav mol cm)
   \<and> ''gap_penalty'' \<notin> fst ` set (align_kwargs self cav mol cm)
   \<and> align (self \<lparr> gap_penalty := g \<rparr>) cav mol cm_opt = align self cav mol cm_opt"
  by (simp add: align_def call_spatial_alignment_align_kwargs Let_def)
     (simp add: align_kwargs_def spatial_alignment_params_def)

theorem align_raises_TypeError_witness:
  "align default_docking two_cells [((0, 0, 0), hydrophobic_voxel)] None =
     Inl (TypeError ''spatial_alignment() got an unexpected keyword argument max_translation'')"
proof -
  from align_raises_TypeError [of default_docking two_cells "[((0, 0, 0), hydrophobic_voxel)]" None]
  obtain msg where "align default_docking two_cells [((0, 0, 0), hydrophobic_voxel)] None
      = Inl (TypeError msg)"
    by blast
  then show ?thesis
    by (simp add: align_def call_spatial_alignment_align_kwargs Let_def)
qed

subsection \<open>Placement score\<close>

lemma placement_loop_closed:
  "placement_loop cav off cm mol (s, n) =
     (s + overlap_sum cm (overlaps cav mol off), n + length (overlaps cav mol off))"
proof (induction mol arbitrary: s n)
  case Nil
  show ?case by (simp add: overlaps_def overlap_sum_def)
next
  case (Cons a mol)
  obtain x y z mv where a: "a = ((x, y, z), mv)" by (cases a) auto
  obtain dx dy dz where off: "off = (dx, dy, dz)" by (cases off) auto
  show ?case
  proof (cases "map_of cav (x + dx, y + dy, z + dz)")
    case None
    then show ?thesis
      using Cons.IH [of s n]
      by (simp add: a off overlaps_def)
  next
    case (Some cv)
    then show ?thesis
      using Cons.IH
      by (simp add: a off overlaps_def overlap_sum_def pair_value_def split: option.splits)
  qed
qed

text \<open>
  Claim C1. \<open>calculate_placement_score\<close> sums, over the molecule voxels whose position
  shifted by the offset is a key of the cavity grid, the matrix value of the pair
  (molecule property, cavity property), else of the reversed pair, else 0; with at least
  one overlap the result is \<open>sum / count * sqrt count\<close>, with none it is 0. With the matrix
  \<open>{('hydrophobic','hydrophobic'): 2.0}\<close> and one overlapping hydrophobic pair at offset
  \<open>(0,0,0)\<close> the score is 2; a cavity cell at \<open>(1,0,0)\<close> and a molecule voxel at \<open>(0,0,0)\<close>
  overlap at offset \<open>(1,0,0)\<close>, with score 2, and not at offset \<open>(0,0,0)\<close>, with score 0.
\<close>

theorem calculate_placement_score_formula:
  "calculate_placement_score cav mol off cm =
     (let os = overlaps cav mol off; n = length os
      in if n > 0 then overlap_sum cm os / real n * sqrt (real n) else 0)
   \<and> calculate_placement_score [((0, 0, 0), hydrophobic_voxel)] [((0, 0, 0), hydrophobic_voxel)]
         (0, 0, 0) [(''hydrophobic'', ''hydrophobic'') \<mapsto> 2] = 2
   \<and> calculate_placement_score [((1, 0, 0), hydrophobic_voxel)] [((0, 0, 0), hydrophobic_voxel)]
         (1, 0, 0) [(''hydrophobic'', ''hydrophobic'') \<mapsto> 2] = 2
   \<and> calculate_placement_score [((1, 0, 0), hydrophobic_voxel)] [((0, 0, 0), hydrophobic_voxel)]
         (0, 0, 0) [(''hydrophobic'', ''hydrophobic'') \<mapsto> 2] = 0"
proof (intro conjI)
  show "calculate_placement_score cav mol off cm =
     (let os = overlaps cav mol off; n = length os
      in if n > 0 then overlap_sum cm os / real n * sqrt (real n) else 0)"
    by (simp add: calculate_placement_score_def placement_loop_closed Let_def overlap_sum_def)
  show "calculate_placement_score [((0, 0, 0), hydrophobic_voxel)] [((0, 0, 0), hydrophobic_voxel)]
         (0, 0, 0) [(''hydrophobic'', ''hydrophobic'') \<mapsto> 2] = 2"
    by (simp add: calculate_placement_score_def hydrophobic_voxel_def)
  show "calculate_placement_score [((1, 0, 0), hydrophobic_voxel)] [((0, 0, 0), hydrophobic_voxel)]
         (1, 0, 0) [(''hydrophobic'', ''hydrophobic'') \<mapsto> 2] = 2"
    by (simp add: calculate_placement_score_def hydrophobic_voxel_def)
  show "calculate_placement_score [((1, 0, 0), hydrophobic_voxel)] [((0, 0, 0), hydrophobic_voxel)]
         (0, 0, 0) [(''hydrophobic'', ''hydrophobic'') \<mapsto> 2] = 0"
    by (simp add: calculate_placement_score_def hydrophobic_voxel_def)
qed

lemma overlaps_example:
  "overlaps two_cells
     [((- 1, 0, 0), hydrophobic_voxel), ((0, 0, 0), hydrophobic_voxel), ((7, 7, 7), hydrophobic_voxel)]
     (1, 0, 0)
     = [(hydrophobic_voxel, hydrophobic_voxel \<lparr> position := (0, 0, 0) \<rparr>),
        (hydrophobic_voxel, hydrophobic_voxel \<lparr> position := (1, 0, 0) \<rparr>)]"
  by (simp add: overlaps_def two_cells_def)

theorem calculate_placement_score_formula_witness:
  "calculate_placement_score two_cells
      [((- 1, 0, 0), hydrophobic_voxel), ((0, 0, 0), hydrophobic_voxel), ((7, 7, 7), hydrophobic_voxel)]
      (1, 0, 0) default_compatibility_matrix = 2 * sqrt 2"
proof -
  have "calculate_placement_score two_cells
      [((- 1, 0, 0), hydrophobic_voxel), ((0, 0, 0), hydrophobic_voxel), ((7, 7, 7), hydrophobic_voxel)]
      (1, 0, 0) default_compatibility_matrix =
        overlap_sum default_compatibility_matrix
          [(hydrophobic_voxel, hydrophobic_voxel \<lparr> position := (0, 0, 0) \<rparr>),
           (hydrophobic_voxel, hydrophobic_voxel \<lparr> position := (1, 0, 0) \<rparr>)] / 2 * sqrt 2"
    using calculate_placement_score_formula
      [of two_cells
          "[((- 1, 0, 0), hydrophobic_voxel), ((0, 0, 0), hydrophobic_voxel), ((7, 7, 7), hydrophobic_voxel)]"
          "(1, 0, 0)" default_compatibility_matrix]
    by (simp only: overlaps_example Let_def) simp
  also have "\<dots> = 2 * sqrt 2"
    by (simp add: overlap_sum_def pair_value_def hydrophobic_voxel_def
          default_compatibility_matrix_def)
  finally show ?thesis .
qed

subsection \<open>Determinism of the translation search\<close>

lemma alignment_step_deterministic:
  "alignment_step c m cm g st st1 \<Longrightarrow> alignment_step c m cm g st st2 \<Longrightarrow> st1 = st2"
  by (auto elim!: alignment_step.cases)

lemma alignment_run_deterministic:
  "alignment_run c m cm g st r1 \<Longrightarrow> alignment_run c m cm g st r2 \<Longrightarrow> r1 = r2"
proof (induction arbitrary: r2 rule: alignment_run.induct)
  case (finished best_score best_offset)
  from finished.prems show ?case
    by (cases rule: alignment_run.cases) (auto elim: alignment_step.cases)
next
  case (iterate st st' result)
  from iterate.prems show ?case
  proof (cases rule: alignment_run.cases)
    case (finished best_score best_offset)
    with iterate.hyps(1) show ?thesis by (auto elim: alignment_step.cases)
  next
    case (iterate st'')
    with alignment_step_deterministic [OF iterate.hyps(1)] have "st'' = st'" by simp
    with iterate show ?thesis using iterate.IH by simp
  qed
qed

lemma alignment_run_loop:
  "alignment_run c m cm g (ps, b, bo) (alignment_loop c m cm g ps (b, bo))"
proof (induction ps arbitrary: b bo)
  case Nil
  show ?case by (simp add: alignment_run.finished)
next
  case (Cons p ps)
  let ?s = "calculate_placement_score c m p cm + g"
  show ?case
  proof (cases "float_gt ?s b")
    case True
    have "alignment_step c m cm g (p # ps, b, bo) (ps, Fin ?s, p)"
      using True by (rule alignment_step.improve)
    moreover have "alignment_run c m cm g (ps, Fin ?s, p) (alignment_loop c m cm g ps (Fin ?s, p))"
      by (rule Cons.IH)
    ultimately have "alignment_run c m cm g (p # ps, b, bo) (alignment_loop c m cm g ps (Fin ?s, p))"
      by (rule alignment_run.iterate)
    then show ?thesis using True by (simp add: Let_def)
  next
    case False
    have "alignment_step c m cm g (p # ps, b, bo) (ps, b, bo)"
      using False by (rule alignment_step.keep)
    moreover have "alignment_run c m cm g (ps, b, bo) (alignment_loop c m cm g ps (b, bo))"
      by (rule Cons.IH)
    ultimately have "alignment_run c m cm g (p # ps, b, bo) (alignment_loop c m cm g ps (b, bo))"
      by (rule alignment_run.iterate)
    then show ?thesis using False by (simp add: Let_def)
  qed
qed

text \<open>
  Claim C9. The translation search is deterministic: every invocation of
  \<open>spatial_alignment\<close> on a cavity grid, molecule grid, compatibility matrix and gap
  penalty returns (the loop always reaches its end), and two invocations with identical
  arguments return identical (score, offset) results, which is the result of the
  functional form of the loop.
\<close>

theorem spatial_alignment_deterministic:
  "invocation cav mol cm g (spatial_alignment cav mol cm g)
   \<and> (invocation cav mol cm g r1 \<longrightarrow> invocation cav mol cm g r2 \<longrightarrow> r1 = r2)"
proof
  show "invocation cav mol cm g (spatial_alignment cav mol cm g)"
    unfolding invocation_def spatial_alignment_def Let_def by (rule alignment_run_loop)
  show "invocation cav mol cm g r1 \<longrightarrow> invocation cav mol cm g r2 \<longrightarrow> r1 = r2"
    unfolding invocation_def by (blast intro: alignment_run_deterministic)
qed

theorem spatial_alignment_deterministic_witness:
  "invocation two_cells [] default_compatibility_matrix (- 1) (Fin (- 1), (0, 0, 0))
   \<and> spatial_alignment two_cells [] default_compatibility_matrix (- 1) = (Fin (- 1), (0, 0, 0))"
proof -
  let ?cm = default_compatibility_matrix
  have s0: "alignment_step two_cells [] ?cm (- 1)
      ([(0, 0, 0), (1, 0, 0)], NegInf, (0, 0, 0)) ([(1, 0, 0)], Fin (- 1), (0, 0, 0))"
    using alignment_step.improve [of two_cells "[]" "(0, 0, 0)" ?cm "- 1" NegInf "[(1, 0, 0)]" "(0, 0, 0)"]
    by (simp add: calculate_placement_score_def)
  have s1: "alignment_step two_cells [] ?cm (- 1)
      ([(1, 0, 0)], Fin (- 1), (0, 0, 0)) ([], Fin (- 1), (0, 0, 0))"
    using alignment_step.keep [of two_cells "[]" "(1, 0, 0)" ?cm "- 1" "Fin (- 1)" "[]" "(0, 0, 0)"]
    by (simp add: calculate_placement_score_def)
  have run: "invocation two_cells [] ?cm (- 1) (Fin (- 1), (0, 0, 0))"
    unfolding invocation_def
    using alignment_run.iterate [OF s0 alignment_run.iterate [OF s1 alignment_run.finished]]
    by (simp add: two_cells_def)
  from spatial_alignment_deterministic [of two_cells "[]" ?cm "- 1" "(Fin (- 1), (0, 0, 0))"
      "spatial_alignment two_cells [] ?cm (- 1)"] run
  show ?thesis by simp
qed

subsection \<open>Boltzmann weighting\<close>

lemma range64_in_range: "in_range x \<Longrightarrow> range64 x = NpFin x"
  by (auto simp: in_range_def range64_def max_float_bound_def min_float_bound_def)

lemma in_range_pos: "in_range x \<Longrightarrow> 0 < x \<Longrightarrow> min_float_bound < x \<and> x < max_float_bound"
  by (auto simp: in_range_def)

lemma in_range_between: "1 / 1000 \<le> x \<Longrightarrow> x \<le> 1000 \<Longrightarrow> in_range x"
  by (simp add: in_range_def max_float_bound_def min_float_bound_def)

lemma divide_by_kT_in_range:
  assumes "in_range kT" and "kT \<noteq> 0" and "in_range (- (- score_of sc) / kT)"
  shows "divide_by_kT sc kT = Inr (NpFin (- (- score_of sc) / kT))"
  using assms by (simp add: divide_by_kT_def range64_in_range Let_def)

lemma sum_weights_nonneg:
  "0 \<le> sum_list (map (\<lambda>(p, score). exp (- (- score_of score) / kT)) (L :: landscape))"
  by (rule sum_list_nonneg) auto

lemma sum_weights_pos:
  "L \<noteq> [] \<Longrightarrow> 0 < sum_list (map (\<lambda>(p, score). exp (- (- score_of score) / kT)) (L :: landscape))"
proof (induction L)
  case Nil
  then show ?case by simp
next
  case (Cons a L)
  obtain p s where a: "a = (p, s)" by (cases a)
  have "0 < exp (- (- score_of s) / kT)" by simp
  then show ?case
    using sum_weights_nonneg [of kT L] by (simp add: a add_pos_nonneg)
qed

lemma weights_loop_in_range:
  assumes kT: "in_range kT" "kT \<noteq> 0"
  shows "\<forall>(p, score)\<in>set L. in_range (- (- score_of score) / kT)
                                \<and> in_range (exp (- (- score_of score) / kT)) \<Longrightarrow>
     0 \<le> z \<Longrightarrow>
     z + sum_list (map (\<lambda>(p, score). exp (- (- score_of score) / kT)) L) < max_float_bound \<Longrightarrow>
     weights_loop kT L (ws, NpFin z) =
       Inr (ws @ map (\<lambda>(p, score). (p, NpFin (exp (- (- score_of score) / kT)))) L,
            NpFin (z + sum_list (map (\<lambda>(p, score). exp (- (- score_of score) / kT)) L)))"
proof (induction L arbitrary: ws z)
  case Nil
  show ?case by simp
next
  case (Cons a L)
  obtain p s where a: "a = (p, s)" by (cases a)
  let ?w = "exp (- (- score_of s) / kT)"
  let ?rest = "sum_list (map (\<lambda>(p, score). exp (- (- score_of score) / kT)) L)"
  have q: "in_range (- (- score_of s) / kT)" and w: "in_range ?w"
    using Cons.prems(1) by (auto simp: a)
  have rest: "0 \<le> ?rest" by (rule sum_weights_nonneg)
  have wpos: "0 < ?w" by simp
  from in_range_pos [OF w wpos] have wmin: "min_float_bound < ?w" by simp
  have minpos: "0 < min_float_bound" by (simp add: min_float_bound_def)
  have "z + ?w \<le> z + (?w + ?rest)" using rest by simp
  also have "\<dots> < max_float_bound" using Cons.prems(3) by (simp add: a)
  finally have upper: "z + ?w < max_float_bound" .
  have lower: "min_float_bound < z + ?w" using Cons.prems(2) wmin by simp
  have zw: "in_range (z + ?w)"
    using upper lower minpos by (simp add: in_range_def)
  have add: "np_add (NpFin z) (NpFin ?w) = NpFin (z + ?w)"
    using range64_in_range [OF zw] by simp
  have IH: "weights_loop kT L (ws @ [(p, NpFin ?w)], NpFin (z + ?w)) =
       Inr ((ws @ [(p, NpFin ?w)]) @ map (\<lambda>(p, score). (p, NpFin (exp (- (- score_of score) / kT)))) L,
            NpFin ((z + ?w) + ?rest))"
  proof (rule Cons.IH)
    show "\<forall>(p, score)\<in>set L. in_range (- (- score_of score) / kT)
                                \<and> in_range (exp (- (- score_of score) / kT))"
      using Cons.prems(1) by simp
    show "0 \<le> z + ?w" using Cons.prems(2) wpos by simp
    show "z + ?w + ?rest < max_float_bound" using Cons.prems(3) by (simp add: a add.assoc)
  qed
  have "weights_loop kT (a # L) (ws, NpFin z)
      = weights_loop kT L (ws @ [(p, NpFin ?w)], NpFin (z + ?w))"
    by (simp only: a weights_loop.simps divide_by_kT_in_range [OF kT q] sum.case
          np_exp.simps range64_in_range [OF w] Let_def add)
  then show ?case using IH by (simp add: a add.assoc)
qed

lemma boltzmann_in_range:
  assumes ne: "paths cav mol \<noteq> []"
    and kT: "in_range (19872041 / 10000000000 * T)" "T \<noteq> 0"
    and Z: "in_range (sum_list (map (\<lambda>(p, score). exp (- (- score_of score) / (19872041 / 10000000000 * T)))
                        (paths cav mol)))"
    and each: "\<forall>(p, score)\<in>set (paths cav mol).
        in_range (- (- score_of score) / (19872041 / 10000000000 * T))
      \<and> in_range (exp (- (- score_of score) / (19872041 / 10000000000 * T)))
      \<and> in_range (exp (- (- score_of score) / (19872041 / 10000000000 * T))
           / sum_list (map (\<lambda>(p, score). exp (- (- score_of score) / (19872041 / 10000000000 * T)))
                        (paths cav mol)))"
  shows "boltzmann_ensemble_docking paths cav mol T =
     Inr (map (\<lambda>(p, score). (p, NpFin (exp (- (- score_of score) / (19872041 / 10000000000 * T))
             / sum_list (map (\<lambda>(p, score). exp (- (- score_of score) / (19872041 / 10000000000 * T)))
                        (paths cav mol)))))
            (paths cav mol))"
proof -
  let ?kT = "19872041 / 10000000000 * T"
  let ?L = "paths cav mol"
  let ?Z = "sum_list (map (\<lambda>(p, score). exp (- (- score_of score) / ?kT)) ?L)"
  have kT0: "?kT \<noteq> 0" using kT(2) by simp
  have Zpos: "0 < ?Z" by (rule sum_weights_pos [OF ne])
  from in_range_pos [OF Z Zpos] have Zmax: "0 + ?Z < max_float_bound" by simp
  have each': "\<forall>(p, score)\<in>set ?L. in_range (- (- score_of score) / ?kT)
                                \<and> in_range (exp (- (- score_of score) / ?kT))"
    using each by auto
  have loop: "weights_loop ?kT ?L ([], NpFin 0) =
       Inr ([] @ map (\<lambda>(p, score). (p, NpFin (exp (- (- score_of score) / ?kT)))) ?L,
            NpFin (0 + ?Z))"
    by (rule weights_loop_in_range [OF kT(1) kT0 each' order_refl Zmax])
  have "map ((\<lambda>(pos, w). (pos, np_div w (NpFin ?Z))) \<circ>
            (\<lambda>(p, score). (p, NpFin (exp (- (- score_of score) / ?kT))))) ?L
      = map (\<lambda>(p, score). (p, NpFin (exp (- (- score_of score) / ?kT) / ?Z))) ?L"
  proof (rule map_cong [OF refl])
    fix a assume "a \<in> set ?L"
    then show "((\<lambda>(pos, w). (pos, np_div w (NpFin ?Z))) \<circ>
            (\<lambda>(p, score). (p, NpFin (exp (- (- score_of score) / ?kT))))) a
      = (\<lambda>(p, score). (p, NpFin (exp (- (- score_of score) / ?kT) / ?Z))) a"
      using each Zpos by (cases a) (auto simp: range64_in_range)
  qed
  then have quot: "map (\<lambda>(pos, w). (pos, np_div w (NpFin ?Z)))
        (map (\<lambda>(p, score). (p, NpFin (exp (- (- score_of score) / ?kT)))) ?L)
      = map (\<lambda>(p, score). (p, NpFin (exp (- (- score_of score) / ?kT) / ?Z))) ?L"
    by (simp only: map_map)
  show ?thesis
    unfolding boltzmann_ensemble_docking_def Let_def
    by (simp only: loop sum.case prod.case append_Nil add_0 quot)
qed


lemma sum_list_divide:
  "sum_list (map (\<lambda>(p, score). f score / (Z :: real)) (L :: landscape))
     = sum_list (map (\<lambda>(p, score). f score) L) / Z"
  by (induction L) (auto simp: add_divide_distrib)

text \<open>
  Claim C5, as amended. For a non-empty score landscape and a positive temperature at
  which \<open>kT\<close>, every \<open>-(-score)/kT\<close>, every weight, the partition sum \<open>Z\<close> and every
  \<open>weight / Z\<close> stay inside the range of float64 (none overflows to infinity or
  underflows to zero), \<open>boltzmann_ensemble_docking\<close> computes
  \<open>kT = 0.0019872041 * temperature\<close>, the weight \<open>exp(-(-score)/kT)\<close> of each entry and
  their sum \<open>Z\<close>, and returns \<open>weight / Z\<close> for each position; up to rounding, the
  returned probabilities sum to 1.
\<close>

theorem boltzmann_probabilities:
  "paths cav mol \<noteq> [] \<longrightarrow> 0 < T \<longrightarrow>
     (let kT = 19872041 / 10000000000 * T;
          weight = (\<lambda>score. exp (- (- score_of score) / kT));
          Z = sum_list (map (\<lambda>(p, score). weight score) (paths cav mol))
      in in_range kT \<longrightarrow> in_range Z \<longrightarrow>
         (\<forall>(p, score)\<in>set (paths cav mol).
             in_range (- (- score_of score) / kT) \<and> in_range (weight score)
           \<and> in_range (weight score / Z)) \<longrightarrow>
         boltzmann_ensemble_docking paths cav mol T =
           Inr (map (\<lambda>(p, score). (p, NpFin (weight score / Z))) (paths cav mol))
         \<and> sum_list (map (\<lambda>(p, score). weight score / Z) (paths cav mol)) = 1)"
proof (intro impI, unfold Let_def, intro impI conjI)
  let ?kT = "19872041 / 10000000000 * T"
  let ?Z = "sum_list (map (\<lambda>(p, score). exp (- (- score_of score) / ?kT)) (paths cav mol))"
  assume ne: "paths cav mol \<noteq> []" and T: "0 < T"
    and kT: "in_range ?kT" and Z: "in_range ?Z"
    and each: "\<forall>(p, score)\<in>set (paths cav mol).
        in_range (- (- score_of score) / ?kT) \<and> in_range (exp (- (- score_of score) / ?kT))
      \<and> in_range (exp (- (- score_of score) / ?kT) / ?Z)"
  have T0: "T \<noteq> 0" using T by simp
  show "boltzmann_ensemble_docking paths cav mol T =
      Inr (map (\<lambda>(p, score). (p, NpFin (exp (- (- score_of score) / ?kT) / ?Z))) (paths cav mol))"
    by (rule boltzmann_in_range [of paths cav mol T, OF ne kT T0 Z each])
  have Zpos: "0 < ?Z" by (rule sum_weights_pos [OF ne])
  have "sum_list (map (\<lambda>(p, score). exp (- (- score_of score) / ?kT) / ?Z) (paths cav mol)) = ?Z / ?Z"
    by (rule sum_list_divide [of "\<lambda>score. exp (- (- score_of score) / ?kT)" ?Z "paths cav mol"])
  also have "\<dots> = 1" using Zpos by simp
  finally show "sum_list (map (\<lambda>(p, score). exp (- (- score_of score) / ?kT) / ?Z) (paths cav mol)) = 1" .
qed

lemma exp_small: "0 \<le> (x::real) \<Longrightarrow> x \<le> 4 \<Longrightarrow> 1 \<le> exp x \<and> exp x \<le> 81"
proof
  assume x: "0 \<le> x" "x \<le> 4"
  show "1 \<le> exp x" using x(1) by simp
  have "exp x \<le> exp (of_nat 4 * 1)" using x(2) by simp
  also have "\<dots> = exp 1 ^ 4" by (rule exp_of_nat_mult)
  also have "\<dots> \<le> 3 ^ 4" by (rule power_mono [OF exp_le]) simp
  finally show "exp x \<le> 81" by simp
qed

lemma two_unequal_in_range:
  fixes w1 w2 :: real
  defines "w1 \<equiv> exp (- (- 1) / (19872041 / 10000000000 * 300))"
    and "w2 \<equiv> exp (- (- 2) / (19872041 / 10000000000 * 300))"
  shows "in_range w1" "in_range w2" "in_range (w1 + w2)"
    "in_range (w1 / (w1 + w2))" "in_range (w2 / (w1 + w2))" "w1 < w2"
proof -
  have b1: "1 \<le> w1 \<and> w1 \<le> 81" unfolding w1_def by (rule exp_small) simp_all
  have b2: "1 \<le> w2 \<and> w2 \<le> 81" unfolding w2_def by (rule exp_small) simp_all
  show "in_range w1" using b1 by (intro in_range_between) simp_all
  show "in_range w2" using b2 by (intro in_range_between) simp_all
  show "in_range (w1 + w2)" using b1 b2 by (intro in_range_between) simp_all
  have q1: "1 / 1000 \<le> w1 / (w1 + w2)" "w1 / (w1 + w2) \<le> 1000"
    using b1 b2 by (simp_all add: field_simps)
  then show "in_range (w1 / (w1 + w2))" by (rule in_range_between)
  have q2: "1 / 1000 \<le> w2 / (w1 + w2)" "w2 / (w1 + w2) \<le> 1000"
    using b1 b2 by (simp_all add: field_simps)
  then show "in_range (w2 / (w1 + w2))" by (rule in_range_between)
  show "w1 < w2" unfolding w1_def w2_def by simp
qed

theorem boltzmann_probabilities_witness:
  "two_unequal_paths [] [] \<noteq> [] \<and> (0::real) < 300 \<and>
   (\<exists>q1 q2. boltzmann_ensemble_docking two_unequal_paths [] [] 300 =
               Inr [((0, 0, 0), NpFin q1), ((1, 0, 0), NpFin q2)] \<and> q1 + q2 = 1)"
proof -
  let ?w1 = "exp (- (- 1) / (19872041 / 10000000000 * 300)) :: real"
  let ?w2 = "exp (- (- 2) / (19872041 / 10000000000 * 300)) :: real"
  have ne: "two_unequal_paths [] [] \<noteq> []" by (simp add: two_unequal_paths_def)
  have T: "(0::real) < 300" by simp
  have kT: "in_range (19872041 / 10000000000 * 300)" by (rule in_range_between) simp_all
  have qs: "in_range (- (- 1) / (19872041 / 10000000000 * 300))"
           "in_range (- (- 2) / (19872041 / 10000000000 * 300))"
    by (rule in_range_between, simp, simp)+
  note r = two_unequal_in_range
  from boltzmann_probabilities [of two_unequal_paths "[]" "[]" 300, unfolded Let_def] ne T
  have "in_range (19872041 / 10000000000 * 300) \<longrightarrow>
      in_range (sum_list (map (\<lambda>(p, score). exp (- (- score_of score) / (19872041 / 10000000000 * 300)))
          (two_unequal_paths [] []))) \<longrightarrow>
      (\<forall>(p, score)\<in>set (two_unequal_paths [] []).
          in_range (- (- score_of score) / (19872041 / 10000000000 * 300))
        \<and> in_range (exp (- (- score_of score) / (19872041 / 10000000000 * 300)))
        \<and> in_range (exp (- (- score_of score) / (19872041 / 10000000000 * 300))
            / sum_list (map (\<lambda>(p, score). exp (- (- score_of score) / (19872041 / 10000000000 * 300)))
                (two_unequal_paths [] [])))) \<longrightarrow>
      boltzmann_ensemble_docking two_unequal_paths [] [] 300 =
        Inr (map (\<lambda>(p, score). (p, NpFin (exp (- (- score_of score) / (19872041 / 10000000000 * 300))
            / sum_list (map (\<lambda>(p, score). exp (- (- score_of score) / (19872041 / 10000000000 * 300)))
                (two_unequal_paths [] [])))))
          (two_unequal_paths [] []))
      \<and> sum_list (map (\<lambda>(p, score). exp (- (- score_of score) / (19872041 / 10000000000 * 300))
            / sum_list (map (\<lambda>(p, score). exp (- (- score_of score) / (19872041 / 10000000000 * 300)))
                (two_unequal_paths [] [])))
          (two_unequal_paths [] [])) = 1"
    by blast
  then have "boltzmann_ensemble_docking two_unequal_paths [] [] 300 =
        Inr [((0, 0, 0), NpFin (?w1 / (?w1 + ?w2))), ((1, 0, 0), NpFin (?w2 / (?w1 + ?w2)))]
      \<and> ?w1 / (?w1 + ?w2) + ?w2 / (?w1 + ?w2) = 1"
    using kT qs r(1-5) by (simp add: two_unequal_paths_def)
  with ne T show ?thesis by blast
qed


lemma exp_overflow:
  assumes "1006 \<le> (x::real)"
  shows "max_float_bound \<le> exp x"
proof -
  have "(3 / 2 :: real) \<le> exp (1 / 2)"
    using exp_ge_add_one_self [of "1 / 2 :: real"] by simp
  then have "(3 / 2 :: real) ^ 2012 \<le> exp (1 / 2) ^ 2012"
    by (rule power_mono) simp
  also have "\<dots> = exp (of_nat 2012 * (1 / 2))"
    by (rule exp_of_nat_mult [symmetric])
  also have "\<dots> \<le> exp x" using assms by simp
  finally have "(3 / 2 :: real) ^ 2012 \<le> exp x" .
  moreover have "max_float_bound \<le> (3 / 2 :: real) ^ 2012"
    by (simp add: max_float_bound_def power_divide field_simps)
  ultimately show ?thesis by simp
qed

lemma np_exp_overflow: "1006 \<le> x \<Longrightarrow> np_exp (NpFin x) = NpPosInf"
  using exp_overflow [of x] by (simp add: range64_def)

lemma np_exp_small: "0 \<le> x \<Longrightarrow> x \<le> 4 \<Longrightarrow> np_exp (NpFin x) = NpFin (exp x)"
proof -
  assume "0 \<le> x" "x \<le> 4"
  then have b: "1 \<le> exp x \<and> exp x \<le> 81" by (rule exp_small)
  have "in_range (exp x)"
  proof (rule in_range_between)
    show "1 / 1000 \<le> exp x" using b by linarith
    show "exp x \<le> 1000" using b by linarith
  qed
  then show ?thesis by (simp add: range64_in_range)
qed

text \<open>
  With the scores 1000.0 and 1.0 at 300 K the first weight is \<open>exp(1677.4)\<close>, which
  overflows to \<open>inf\<close>, and so does \<open>Z\<close>: the probabilities are \<open>inf / inf = nan\<close> and
  \<open>weight / inf = 0.0\<close>, which do not sum to 1.
\<close>

theorem boltzmann_overflow_counterexample:
  "boltzmann_ensemble_docking steep_paths [] [] 300 =
     Inr [((0, 0, 0), NpNaN), ((1, 0, 0), NpFin 0)]"
proof -
  let ?kT = "19872041 / 10000000000 * 300 :: real"
  have kT: "range64 ?kT = NpFin ?kT"
    by (rule range64_in_range) (simp add: in_range_def max_float_bound_def min_float_bound_def)
  have r1: "range64 (1000 / ?kT) = NpFin (1000 / ?kT)"
    by (rule range64_in_range) (simp add: in_range_def max_float_bound_def min_float_bound_def)
  have r2: "range64 (1 / ?kT) = NpFin (1 / ?kT)"
    by (rule range64_in_range) (simp add: in_range_def max_float_bound_def min_float_bound_def)
  have d1: "divide_by_kT (PyFloat 1000) ?kT = Inr (NpFin (1000 / ?kT))"
    unfolding divide_by_kT_def Let_def kT using r1 by simp
  have d2: "divide_by_kT (PyFloat 1) ?kT = Inr (NpFin (1 / ?kT))"
    unfolding divide_by_kT_def Let_def kT using r2 by simp
  have e1: "np_exp (NpFin (1000 / ?kT)) = NpPosInf"
    by (rule np_exp_overflow) simp
  have e2: "np_exp (NpFin (1 / ?kT)) = NpFin (exp (1 / ?kT))"
    by (rule np_exp_small) simp_all
  have "weights_loop ?kT (steep_paths [] []) ([], NpFin 0) =
      Inr ([((0, 0, 0), NpPosInf), ((1, 0, 0), NpFin (exp (1 / ?kT)))], NpPosInf)"
    unfolding steep_paths_def
    by (simp only: weights_loop.simps d1 d2 e1 e2 sum.case Let_def append.simps np_add.simps)
  then show ?thesis
    unfolding boltzmann_ensemble_docking_def Let_def by simp
qed


lemma map_of_probabilities:
  assumes "distinct (map fst L)" and "(p, s) \<in> set L"
  shows "map_of (map (\<lambda>(p, score). (p, f score)) L) p = Some (f s)"
proof -
  have "map_of L p = Some s" using assms by simp
  then show ?thesis by (simp add: map_of_map)
qed

lemma exp_le_504:
  assumes "(x::real) \<le> 504"
  shows "exp x \<le> 3 ^ 504"
proof -
  have "exp x \<le> exp (of_nat 504 * 1)" using assms by simp
  also have "\<dots> = exp 1 ^ 504" by (rule exp_of_nat_mult)
  also have "\<dots> \<le> 3 ^ 504" by (rule power_mono [OF exp_le]) simp
  finally show ?thesis .
qed

lemma two_equal_half:
  assumes T: "1 \<le> T"
  shows "boltzmann_ensemble_docking two_equal_paths cav mol T =
           Inr [((0, 0, 0), NpFin (1 / 2)), ((1, 0, 0), NpFin (1 / 2))]"
proof -
  let ?kT = "19872041 / 10000000000 * T"
  have lo: "19872041 / 10000000000 \<le> ?kT" using T by simp
  have r1: "range64 1 = NpFin 1" and r2: "range64 2 = NpFin 2"
    and rh: "range64 (1 / 2) = NpFin (1 / 2)"
    by (simp_all add: range64_def max_float_bound_def min_float_bound_def)
  show ?thesis
  proof (cases "max_float_bound \<le> ?kT")
    case True
    then have kT: "range64 ?kT = NpPosInf" by (simp add: range64_def)
    have d: "divide_by_kT (PyFloat 1) ?kT = Inr (NpFin 0)"
      unfolding divide_by_kT_def Let_def kT by simp
    have e: "np_exp (NpFin 0) = NpFin 1" using r1 by simp
    have a1: "np_add (NpFin 0) (NpFin 1) = NpFin 1" using r1 by simp
    have a2: "np_add (NpFin 1) (NpFin 1) = NpFin 2" using r2 by simp
    have "weights_loop ?kT (two_equal_paths cav mol) ([], NpFin 0) =
        Inr ([((0, 0, 0), NpFin 1), ((1, 0, 0), NpFin 1)], NpFin 2)"
      unfolding two_equal_paths_def
      by (simp only: weights_loop.simps d e a1 a2 sum.case Let_def append.simps)
    then show ?thesis
      unfolding boltzmann_ensemble_docking_def Let_def using rh by simp
  next
    case False
    then have hi: "?kT < max_float_bound" by simp
    have kTr: "in_range ?kT"
      using lo hi by (simp add: in_range_def min_float_bound_def)
    have kT: "range64 ?kT = NpFin ?kT" by (rule range64_in_range [OF kTr])
    have kpos: "0 < ?kT" using lo by simp
    have qle: "1 / ?kT \<le> 504"
      using lo kpos by (simp add: field_simps)
    have qpos: "0 < 1 / ?kT" using kpos by simp
    have "?kT < 2 ^ 1075" using hi by (simp add: max_float_bound_def)
    then have qmin: "min_float_bound < 1 / ?kT"
      using kpos by (simp add: min_float_bound_def field_simps)
    have qr: "in_range (1 / ?kT)"
      using qmin qle qpos by (simp add: in_range_def max_float_bound_def)
    have d: "divide_by_kT (PyFloat 1) ?kT = Inr (NpFin (1 / ?kT))"
      unfolding divide_by_kT_def Let_def kT using kpos range64_in_range [OF qr] by simp
    define w where "w = exp (1 / ?kT)"
    have w1: "1 \<le> w" unfolding w_def using qpos by simp
    have w2: "w \<le> 3 ^ 504" unfolding w_def by (rule exp_le_504 [OF qle])
    have wr: "in_range w" using w1 w2
      by (simp add: in_range_def max_float_bound_def min_float_bound_def)
    have wwr: "in_range (w + w)" using w1 w2
      by (simp add: in_range_def max_float_bound_def min_float_bound_def)
    have e: "np_exp (NpFin (1 / ?kT)) = NpFin w"
      using range64_in_range [OF wr] by (simp add: w_def)
    have a1: "np_add (NpFin 0) (NpFin w) = NpFin w" using range64_in_range [OF wr] by simp
    have a2: "np_add (NpFin w) (NpFin w) = NpFin (w + w)" using range64_in_range [OF wwr] by simp
    have "weights_loop ?kT (two_equal_paths cav mol) ([], NpFin 0) =
        Inr ([((0, 0, 0), NpFin w), ((1, 0, 0), NpFin w)], NpFin (w + w))"
      unfolding two_equal_paths_def
      by (simp only: weights_loop.simps d e a1 a2 sum.case Let_def append.simps)
    moreover have "np_div (NpFin w) (NpFin (w + w)) = NpFin (1 / 2)"
      using w1 rh by simp
    ultimately show ?thesis
      unfolding boltzmann_ensemble_docking_def Let_def by simp
  qed
qed

text \<open>
  Claim C6, as amended. At a positive temperature at which \<open>kT\<close>, every
  \<open>-(-score)/kT\<close>, every weight, \<open>Z\<close> and every \<open>weight / Z\<close> stay inside the range of
  float64, of two positions of one landscape the one with the strictly higher score has
  the strictly higher probability (up to rounding), and equal scores have equal
  probabilities. The landscape \<open>{(0,0,0): 1.0, (1,0,0): 1.0}\<close> yields probability 0.5 for
  each position at every temperature of 1 K or more.
\<close>

theorem boltzmann_order_preserving:
  "(0 < T \<longrightarrow> distinct (map fst (paths cav mol)) \<longrightarrow>
    (p1, s1) \<in> set (paths cav mol) \<longrightarrow> (p2, s2) \<in> set (paths cav mol) \<longrightarrow>
     (let kT = 19872041 / 10000000000 * T;
          weight = (\<lambda>score. exp (- (- score_of score) / kT));
          Z = sum_list (map (\<lambda>(p, score). weight score) (paths cav mol))
      in in_range kT \<longrightarrow> in_range Z \<longrightarrow>
         (\<forall>(p, score)\<in>set (paths cav mol).
             in_range (- (- score_of score) / kT) \<and> in_range (weight score)
           \<and> in_range (weight score / Z)) \<longrightarrow>
         (\<exists>probabilities q1 q2.
            boltzmann_ensemble_docking paths cav mol T = Inr probabilities \<and>
            map_of probabilities p1 = Some (NpFin q1) \<and>
            map_of probabilities p2 = Some (NpFin q2) \<and>
            (score_of s1 < score_of s2 \<longrightarrow> q1 < q2) \<and>
            (score_of s1 = score_of s2 \<longrightarrow> q1 = q2))))
   \<and> (1 \<le> T \<longrightarrow>
        boltzmann_ensemble_docking two_equal_paths cav mol T =
          Inr [((0, 0, 0), NpFin (1 / 2)), ((1, 0, 0), NpFin (1 / 2))])"
proof (intro conjI impI, unfold Let_def, intro impI)
  let ?kT = "19872041 / 10000000000 * T"
  let ?w = "\<lambda>score. exp (- (- score_of score) / ?kT)"
  let ?Z = "sum_list (map (\<lambda>(p, score). ?w score) (paths cav mol))"
  let ?probs = "map (\<lambda>(p, score). (p, NpFin (?w score / ?Z))) (paths cav mol)"
  assume T: "0 < T" and d: "distinct (map fst (paths cav mol))"
    and m1: "(p1, s1) \<in> set (paths cav mol)" and m2: "(p2, s2) \<in> set (paths cav mol)"
    and kT: "in_range ?kT" and Z: "in_range ?Z"
    and each: "\<forall>(p, score)\<in>set (paths cav mol).
        in_range (- (- score_of score) / ?kT) \<and> in_range (?w score) \<and> in_range (?w score / ?Z)"
  have T0: "T \<noteq> 0" and kpos: "0 < ?kT" using T by simp_all
  have ne: "paths cav mol \<noteq> []" using m1 by auto
  have Zpos: "0 < ?Z" by (rule sum_weights_pos [OF ne])
  have run: "boltzmann_ensemble_docking paths cav mol T = Inr ?probs"
    by (rule boltzmann_in_range [of paths cav mol T, OF ne kT T0 Z each])
  have q1: "map_of ?probs p1 = Some (NpFin (?w s1 / ?Z))"
    by (rule map_of_probabilities [OF d m1, of "\<lambda>score. NpFin (?w score / ?Z)"])
  have q2: "map_of ?probs p2 = Some (NpFin (?w s2 / ?Z))"
    by (rule map_of_probabilities [OF d m2, of "\<lambda>score. NpFin (?w score / ?Z)"])
  have lt: "score_of s1 < score_of s2 \<longrightarrow> ?w s1 / ?Z < ?w s2 / ?Z"
  proof
    assume "score_of s1 < score_of s2"
    then have "score_of s1 / ?kT < score_of s2 / ?kT"
      using kpos by (simp add: divide_strict_right_mono)
    then have "?w s1 < ?w s2" by simp
    then show "?w s1 / ?Z < ?w s2 / ?Z" using Zpos by (simp add: divide_strict_right_mono)
  qed
  have eq: "score_of s1 = score_of s2 \<longrightarrow> ?w s1 / ?Z = ?w s2 / ?Z" by simp
  from run q1 q2 lt eq
  show "\<exists>probabilities q1 q2.
          boltzmann_ensemble_docking paths cav mol T = Inr probabilities \<and>
          map_of probabilities p1 = Some (NpFin q1) \<and>
          map_of probabilities p2 = Some (NpFin q2) \<and>
          (score_of s1 < score_of s2 \<longrightarrow> q1 < q2) \<and>
          (score_of s1 = score_of s2 \<longrightarrow> q1 = q2)"
    by blast
next
  assume "1 \<le> T"
  then show "boltzmann_ensemble_docking two_equal_paths cav mol T =
          Inr [((0, 0, 0), NpFin (1 / 2)), ((1, 0, 0), NpFin (1 / 2))]"
    by (rule two_equal_half)
qed


theorem boltzmann_order_preserving_witness:
  "(\<exists>probabilities q1 q2.
      boltzmann_ensemble_docking two_unequal_paths [] [] 300 = Inr probabilities \<and>
      map_of probabilities (0, 0, 0) = Some (NpFin q1) \<and>
      map_of probabilities (1, 0, 0) = Some (NpFin q2) \<and> q1 < q2)
   \<and> boltzmann_ensemble_docking two_equal_paths [] [] 1 =
        Inr [((0, 0, 0), NpFin (1 / 2)), ((1, 0, 0), NpFin (1 / 2))]"
proof
  have T: "(0::real) < 300" by simp
  have d: "distinct (map fst (two_unequal_paths [] []))" by (simp add: two_unequal_paths_def)
  have m1: "((0, 0, 0), PyFloat 1) \<in> set (two_unequal_paths [] [])"
    and m2: "((1, 0, 0), NpFloat64 2) \<in> set (two_unequal_paths [] [])"
    by (simp_all add: two_unequal_paths_def)
  have kT: "in_range (19872041 / 10000000000 * 300)" by (rule in_range_between) simp_all
  have qs: "in_range (- (- 1) / (19872041 / 10000000000 * 300))"
           "in_range (- (- 2) / (19872041 / 10000000000 * 300))"
    by (rule in_range_between, simp, simp)+
  note r = two_unequal_in_range
  have Z: "in_range (sum_list (map (\<lambda>(p, score). exp (- (- score_of score) / (19872041 / 10000000000 * 300)))
          (two_unequal_paths [] [])))"
    using r(3) by (simp add: two_unequal_paths_def)
  have each: "\<forall>(p, score)\<in>set (two_unequal_paths [] []).
          in_range (- (- score_of score) / (19872041 / 10000000000 * 300))
        \<and> in_range (exp (- (- score_of score) / (19872041 / 10000000000 * 300)))
        \<and> in_range (exp (- (- score_of score) / (19872041 / 10000000000 * 300))
            / sum_list (map (\<lambda>(p, score). exp (- (- score_of score) / (19872041 / 10000000000 * 300)))
                (two_unequal_paths [] [])))"
    using qs r(1,2,4,5) by (simp add: two_unequal_paths_def)
  have lt: "score_of (PyFloat 1) < score_of (NpFloat64 2)" by simp
  from boltzmann_order_preserving
         [of 300 two_unequal_paths "[]" "[]" "(0, 0, 0)" "PyFloat 1" "(1, 0, 0)" "NpFloat64 2",
          unfolded Let_def]
       T d m1 m2 kT Z each lt
  show "\<exists>probabilities q1 q2.
      boltzmann_ensemble_docking two_unequal_paths [] [] 300 = Inr probabilities \<and>
      map_of probabilities (0, 0, 0) = Some (NpFin q1) \<and>
      map_of probabilities (1, 0, 0) = Some (NpFin q2) \<and> q1 < q2"
    by blast
next
  have "(1::real) \<le> 1" by simp
  with boltzmann_order_preserving [of 1 two_equal_paths "[]" "[]"]
  show "boltzmann_ensemble_docking two_equal_paths [] [] 1 =
        Inr [((0, 0, 0), NpFin (1 / 2)), ((1, 0, 0), NpFin (1 / 2))]"
    by blast
qed

text \<open>
  At 0.5 K the two weights of the landscape \<open>{(0,0,0): 1.0, (1,0,0): 1.0}\<close> are
  \<open>exp(1006.4)\<close>, which overflows to \<open>inf\<close>, and so does \<open>Z\<close>: both probabilities are
  \<open>inf / inf = nan\<close>, not 0.5, at a positive temperature.
\<close>

theorem boltzmann_half_kelvin_counterexample:
  "boltzmann_ensemble_docking two_equal_paths [] [] (1 / 2) =
     Inr [((0, 0, 0), NpNaN), ((1, 0, 0), NpNaN)]"
proof -
  let ?kT = "19872041 / 10000000000 * (1 / 2) :: real"
  have kT: "range64 ?kT = NpFin ?kT"
    by (rule range64_in_range) (simp add: in_range_def max_float_bound_def min_float_bound_def)
  have r1: "range64 (1 / ?kT) = NpFin (1 / ?kT)"
    by (rule range64_in_range) (simp add: in_range_def max_float_bound_def min_float_bound_def)
  have d1: "divide_by_kT (PyFloat 1) ?kT = Inr (NpFin (1 / ?kT))"
    unfolding divide_by_kT_def Let_def kT using r1 by simp
  have e1: "np_exp (NpFin (1 / ?kT)) = NpPosInf"
    by (rule np_exp_overflow) simp
  have "weights_loop ?kT (two_equal_paths [] []) ([], NpFin 0) =
      Inr ([((0, 0, 0), NpPosInf), ((1, 0, 0), NpPosInf)], NpPosInf)"
    unfolding two_equal_paths_def
    by (simp only: weights_loop.simps d1 e1 sum.case Let_def append.simps np_add.simps)
  then show ?thesis
    unfolding boltzmann_ensemble_docking_def Let_def by simp
qed

subsection \<open>Degenerate inputs\<close>

lemma deviations_constant:
  assumes "\<forall>x\<in>set xs. x = v"
  shows "deviations xs = replicate (length xs) 0"
proof (cases "xs = []")
  case True
  then show ?thesis by (simp add: deviations_def)
next
  case False
  have xs: "xs = replicate (length xs) v"
    using assms by (simp add: replicate_length_same)
  have "sum_list xs = real (length xs) * v"
    by (subst xs) (simp add: sum_list_replicate)
  then have mean: "sum_list xs / real (length xs) = v"
    using False by simp
  show ?thesis
    unfolding deviations_def mean
    using assms by (simp add: map_replicate_const [symmetric] cong: map_cong)
qed

lemma corrcoef_constant:
  assumes "\<forall>x\<in>set xs. x = v" and "length xs = length ys"
  shows "corrcoef xs ys = Inr NpNaN"
proof -
  have "sum_list (map (\<lambda>a. a * a) (deviations xs)) = 0"
    by (simp add: deviations_constant [OF assms(1)] sum_list_replicate)
  then show ?thesis using assms(2) by (simp add: corrcoef_def Let_def)
qed

lemma corrcoef_total:
  "length xs = length ys \<Longrightarrow> \<exists>v. corrcoef xs ys = Inr v"
  by (simp add: corrcoef_def Let_def)

text \<open>
  Claim C4, as amended. None of the three degenerate inputs raises an error; each returns
  a value. \<open>spatial_alignment\<close> with an empty cavity grid returns negative infinity with
  offset \<open>(0, 0, 0)\<close>. \<open>boltzmann_ensemble_docking\<close> with an empty score landscape returns
  the empty mapping, at every temperature. In \<open>update_weights\<close>, with as many activities
  as binders, the loss never raises; when all predicted scores are identical it is \<open>nan\<close>
  (rounding aside), which goes to the optimizer as a value, and \<open>update_weights\<close>
  returns the mapping of the keys to whatever vector the optimizer returns.
\<close>

theorem degenerate_inputs_return:
  "spatial_alignment [] mol cm g = (NegInf, (0, 0, 0))
   \<and> (paths cav mol = [] \<longrightarrow> boltzmann_ensemble_docking paths cav mol T = Inr [])
   \<and> (length binders = length activities \<longrightarrow>
        (\<exists>v. loss keys cav binders activities scoring w = Inr v))
   \<and> (length binders = length activities \<longrightarrow>
        (\<forall>b\<in>set binders. scoring cav b (zip keys w) = c) \<longrightarrow>
        loss keys cav binders activities scoring w = Inr NpNaN)
   \<and> (minimize (loss (map fst weights) cav binders activities scoring) (map snd weights) = Inr x \<longrightarrow>
        update_weights minimize weights cav binders activities scoring =
          Inr (zip (map fst weights) x))"
proof (intro conjI impI)
  show "spatial_alignment [] mol cm g = (NegInf, (0, 0, 0))"
    by (simp add: spatial_alignment_def)
  show "boltzmann_ensemble_docking paths cav mol T = Inr []" if "paths cav mol = []"
    using that by (simp add: boltzmann_ensemble_docking_def)
  show "\<exists>v. loss keys cav binders activities scoring w = Inr v"
    if "length binders = length activities"
  proof -
    from corrcoef_total [of "map (\<lambda>b. scoring cav b (zip keys w)) binders" activities] that
    obtain v where "corrcoef (map (\<lambda>b. scoring cav b (zip keys w)) binders) activities = Inr v"
      by auto
    then show ?thesis by (simp add: loss_def Let_def)
  qed
  show "loss keys cav binders activities scoring w = Inr NpNaN"
    if "length binders = length activities" and "\<forall>b\<in>set binders. scoring cav b (zip keys w) = c"
  proof -
    have "corrcoef (map (\<lambda>b. scoring cav b (zip keys w)) binders) activities = Inr NpNaN"
      by (rule corrcoef_constant [of _ c]) (use that in auto)
    then show ?thesis by (simp add: loss_def Let_def)
  qed
  show "update_weights minimize weights cav binders activities scoring =
          Inr (zip (map fst weights) x)"
    if "minimize (loss (map fst weights) cav binders activities scoring) (map snd weights) = Inr x"
    using that by (simp add: update_weights_def Let_def)
qed

theorem degenerate_inputs_return_witness:
  "no_paths two_cells [] = []
   \<and> spatial_alignment [] [] default_compatibility_matrix (- 2) = (NegInf, (0, 0, 0))
   \<and> boltzmann_ensemble_docking no_paths two_cells [] 0 = Inr []
   \<and> loss [''w''] two_cells [[], two_cells] [1, 2] constant_score [5] = Inr NpNaN
   \<and> update_weights evaluate_once [(''w'', 5)] two_cells [[], two_cells] [1, 2] constant_score
        = Inr [(''w'', 5)]"
proof -
  have e: "no_paths two_cells [] = []" by (simp add: no_paths_def)
  have len: "length [[], two_cells] = length [1, 2 :: real]" by simp
  have const: "\<forall>b\<in>set [[], two_cells]. constant_score two_cells b (zip [''w''] [5]) = 1"
    by (simp add: constant_score_def)
  note inst = degenerate_inputs_return
    [of "[]" default_compatibility_matrix "- 2" no_paths two_cells 0
        "[[], two_cells]" "[1, 2]" "[''w'']" constant_score "[5]" 1
        evaluate_once "[(''w'', 5)]" "[5]"]
  from inst len const have l: "loss [''w''] two_cells [[], two_cells] [1, 2] constant_score [5] = Inr NpNaN"
    by blast
  then have "evaluate_once (loss (map fst [(''w'', 5)]) two_cells [[], two_cells] [1, 2] constant_score)
      (map snd [(''w'', 5 :: real)]) = Inr [5]"
    by (simp add: evaluate_once_def)
  with inst have "update_weights evaluate_once [(''w'', 5)] two_cells [[], two_cells] [1, 2] constant_score
        = Inr (zip (map fst [(''w'', 5 :: real)]) [5])"
    by blast
  with inst e l show ?thesis by simp
qed

text \<open>
  With an empty cavity grid the loop of \<open>spatial_alignment\<close> never runs and the start
  values are returned; with an empty landscape the loop and the final comprehension of
  \<open>boltzmann_ensemble_docking\<close> never run, so \<open>Z = 0\<close> divides nothing; with the predicted
  scores 1 and 1 the correlation is \<open>nan\<close>, the loss returns it, and \<open>update_weights\<close>
  returns a mapping. None raises.
\<close>

theorem degenerate_inputs_counterexample:
  "spatial_alignment [] [((0, 0, 0), hydrophobic_voxel)] default_compatibility_matrix (- 1)
      = (NegInf, (0, 0, 0))
   \<and> boltzmann_ensemble_docking no_paths [] [] 300 = Inr []
   \<and> loss [''w''] two_cells [[], []] [1, 2] constant_score [0] = Inr NpNaN
   \<and> update_weights evaluate_once [(''w'', 0)] two_cells [[], []] [1, 2] constant_score
        = Inr [(''w'', 0)]"
proof -
  have l: "loss [''w''] two_cells [[], []] [1, 2] constant_score [0] = Inr NpNaN"
    by (simp add: loss_def corrcoef_def deviations_def constant_score_def Let_def)
  then have "update_weights evaluate_once [(''w'', 0)] two_cells [[], []] [1, 2] constant_score
        = Inr [(''w'', 0)]"
    by (simp add: update_weights_def evaluate_once_def Let_def)
  with l show ?thesis
    by (simp add: spatial_alignment_def boltzmann_ensemble_docking_def no_paths_def)
qed

end
